theory Spec2Isabelle
  imports Complex_Main
begin

section \<open>Tasklink: priority bucketing and the Canvas-to-Todoist sync\<close>

text \<open>
  A shallow embedding of \<^verbatim>\<open>backend/src/services/todoistService.ts\<close> and of the
  per-assignment filter of \<^verbatim>\<open>fetchAndStoreUpcomingAssignments\<close>
  (\<^verbatim>\<open>canvasService.ts\<close>).

  A JavaScript \<^verbatim>\<open>number\<close> is a real (NaN and the infinities are left out), a
  \<^verbatim>\<open>Date\<close> is its time value, an integer count of milliseconds since the epoch;
  \<^verbatim>\<open>null\<close> and \<^verbatim>\<open>undefined\<close> are both \<open>None\<close>.
\<close>

subsection \<open>Priority settings\<close>

type_synonym number = real
type_synonym date = int

datatype PriorityKey = P1 | P2 | P3 | P4

record PriorityRangeInput =
  enabled_in :: "bool option"
  to_in :: "number option"
  todoistPriority_in :: "number option"

record PrioritySettingsInput =
  p1 :: "PriorityRangeInput option"
  p2 :: "PriorityRangeInput option"
  p3 :: "PriorityRangeInput option"
  p4 :: "PriorityRangeInput option"

record NormalizedPriorityRange =
  enabled :: bool
  to :: number
  todoistPriority :: number

record NormalizedPrioritySettings =
  ranges :: "PriorityKey \<Rightarrow> NormalizedPriorityRange"

definition clampDay :: "number \<Rightarrow> number" where
  "clampDay v =
     (if v \<le> 1 then 1
      else if v = 2 then 2
      else if v = 3 then 3
      else if v = 4 then 4
      else 5)"

text \<open>\<^verbatim>\<open>settings?.p?.field\<close>: the optional chain through the settings object.\<close>

definition chain ::
  "PrioritySettingsInput option \<Rightarrow> (PrioritySettingsInput \<Rightarrow> PriorityRangeInput option)
     \<Rightarrow> (PriorityRangeInput \<Rightarrow> 'a option) \<Rightarrow> 'a option" where
  "chain settings p field =
     (case settings of
        None \<Rightarrow> None
      | Some s \<Rightarrow> (case p s of None \<Rightarrow> None | Some r \<Rightarrow> field r))"

text \<open>\<^verbatim>\<open>v ?? d\<close>\<close>

definition nullish :: "'a option \<Rightarrow> 'a \<Rightarrow> 'a" where
  "nullish v d = (case v of None \<Rightarrow> d | Some x \<Rightarrow> x)"

definition baseRanges :: "PrioritySettingsInput option \<Rightarrow> PriorityKey \<Rightarrow> NormalizedPriorityRange" where
  "baseRanges settings k =
     (case k of
        P1 \<Rightarrow> \<lparr>enabled = nullish (chain settings p1 enabled_in) True,
               to = clampDay (nullish (chain settings p1 to_in) 2),
               todoistPriority = nullish (chain settings p1 todoistPriority_in) 4\<rparr>
      | P2 \<Rightarrow> \<lparr>enabled = nullish (chain settings p2 enabled_in) True,
               to = clampDay (nullish (chain settings p2 to_in) 3),
               todoistPriority = nullish (chain settings p2 todoistPriority_in) 3\<rparr>
      | P3 \<Rightarrow> \<lparr>enabled = nullish (chain settings p3 enabled_in) True,
               to = clampDay (nullish (chain settings p3 to_in) 4),
               todoistPriority = nullish (chain settings p3 todoistPriority_in) 2\<rparr>
      | P4 \<Rightarrow> \<lparr>enabled = nullish (chain settings p4 enabled_in) False,
               to = 5,
               todoistPriority = nullish (chain settings p4 todoistPriority_in) 1\<rparr>)"

definition normalizePrioritySettings :: "PrioritySettingsInput option \<Rightarrow> NormalizedPrioritySettings" where
  "normalizePrioritySettings settings =
     (let base = baseRanges settings;
          c1 = clampDay (to (base P1));
          c2 = clampDay (to (base P2));
          c3 = clampDay (to (base P3));
          c2 = (if c2 < c1 then clampDay (c1 + 1) else c2);
          c3 = (if c3 < c2 then clampDay (c2 + 1) else c3);
          base = base(P1 := (base P1)\<lparr>to := c1\<rparr>);
          base = base(P2 := (base P2)\<lparr>to := c2\<rparr>);
          base = base(P3 := (base P3)\<lparr>to := c3\<rparr>);
          base = base(P4 := (base P4)\<lparr>to := 5\<rparr>)
      in \<lparr>ranges = base\<rparr>)"

definition computeConceptualBucket :: "number \<Rightarrow> NormalizedPrioritySettings \<Rightarrow> PriorityKey" where
  "computeConceptualBucket diffDays settings =
     (if diffDays \<le> 0 then P1
      else
        let day = clampDay (if diffDays > 5 then 5 else diffDays) in
        if day \<le> to (ranges settings P1) then P1
        else if day \<le> to (ranges settings P2) then P2
        else if day \<le> to (ranges settings P3) then P3
        else P4)"

definition order :: "PriorityKey list" where
  "order = [P1, P2, P3, P4]"

text \<open>\<^verbatim>\<open>order.indexOf(bucket)\<close>; every key occurs in \<open>order\<close>, so \<open>-1\<close> is never returned.\<close>

fun indexOf :: "PriorityKey list \<Rightarrow> PriorityKey \<Rightarrow> nat" where
  "indexOf [] k = 0"
| "indexOf (x # xs) k = (if x = k then 0 else Suc (indexOf xs k))"

text \<open>The first loop, \<^verbatim>\<open>for (let i = idx; i >= 0; i -= 1)\<close>; \<open>None\<close> when it falls through.\<close>

fun scanUp :: "NormalizedPrioritySettings \<Rightarrow> nat \<Rightarrow> number option" where
  "scanUp settings 0 =
     (let range = ranges settings (order ! 0) in
      if enabled range then Some (todoistPriority range) else None)"
| "scanUp settings (Suc i) =
     (let range = ranges settings (order ! Suc i) in
      if enabled range then Some (todoistPriority range) else scanUp settings i)"

text \<open>The second loop, \<^verbatim>\<open>for (let i = idx + 1; i < order.length; i += 1)\<close>.\<close>

function scanDown :: "NormalizedPrioritySettings \<Rightarrow> nat \<Rightarrow> number option" where
  "scanDown settings i =
     (if i < length order then
        (let range = ranges settings (order ! i) in
         if enabled range then Some (todoistPriority range) else scanDown settings (i + 1))
      else None)"
  by pat_completeness auto
termination
  by (relation "measure (\<lambda>(settings, i). length order - i)") auto

declare scanDown.simps [simp del]

definition bucketToTodoistPriority :: "PriorityKey \<Rightarrow> NormalizedPrioritySettings \<Rightarrow> number" where
  "bucketToTodoistPriority bucket settings =
     (let idx = indexOf order bucket in
      case scanUp settings idx of
        Some p \<Rightarrow> p
      | None \<Rightarrow> (case scanDown settings (idx + 1) of Some p \<Rightarrow> p | None \<Rightarrow> 2))"

subsection \<open>Dates\<close>

text \<open>
  What the code uses of the JavaScript runtime's local calendar: the three getters of a
  \<^verbatim>\<open>Date\<close> and the constructor \<^verbatim>\<open>new Date(year, month, day)\<close> (local midnight).
  They depend on the time zone of the server and are parameters of the model.
\<close>

record calendar =
  getFullYear :: "date \<Rightarrow> int"
  getMonth :: "date \<Rightarrow> int"
  getDate :: "date \<Rightarrow> int"
  newDate :: "int \<Rightarrow> int \<Rightarrow> int \<Rightarrow> date"

text \<open>\<^verbatim>\<open>Math.round\<close>: the nearest integer, halves rounded up.\<close>

definition mathRound :: "number \<Rightarrow> number" where
  "mathRound x = of_int \<lfloor>x + 1 / 2\<rfloor>"

definition msPerDay :: number where
  "msPerDay = 1000 * 60 * 60 * 24"

definition midnight :: "calendar \<Rightarrow> date \<Rightarrow> date" where
  "midnight cal d = newDate cal (getFullYear cal d) (getMonth cal d) (getDate cal d)"

text \<open>The days until due, as the sync loop computes them from two local midnights.\<close>

definition diffDaysOf :: "calendar \<Rightarrow> date \<Rightarrow> date \<Rightarrow> number" where
  "diffDaysOf cal today dueDateValue =
     (let todayMidnight = midnight cal today;
          dueMidnight = midnight cal dueDateValue;
          diffMs = dueMidnight - todayMidnight
      in mathRound (of_int diffMs / msPerDay))"

text \<open>The closure that computes \<^verbatim>\<open>conceptualBucket\<close> in the sync loop.\<close>

definition conceptualBucket ::
  "calendar \<Rightarrow> date \<Rightarrow> date option \<Rightarrow> NormalizedPrioritySettings \<Rightarrow> PriorityKey" where
  "conceptualBucket cal today dueDateValue settings =
     (case dueDateValue of
        None \<Rightarrow> P4
      | Some due \<Rightarrow> computeConceptualBucket (diffDaysOf cal today due) settings)"

subsection \<open>The window filter of the fetch cycle\<close>



subsection \<open>Strings\<close>

text \<open>
  A string is the UTF-8 encoding of the JavaScript string. \<^verbatim>\<open>String.prototype.trim\<close>
  strips the code points of WhiteSpace and LineTerminator from both ends: U+0009 to
  U+000D, U+0020, U+00A0, U+1680, U+2000 to U+200A, U+2028, U+2029, U+202F, U+205F,
  U+3000 and U+FEFF, here as their byte sequences.
\<close>

definition whiteSpace :: "string list" where
  "whiteSpace =
     [[CHR 0x09], [CHR 0x0A], [CHR 0x0B], [CHR 0x0C], [CHR 0x0D], [CHR 0x20],
      [CHR 0xC2, CHR 0xA0],
      [CHR 0xE1, CHR 0x9A, CHR 0x80],
      [CHR 0xE2, CHR 0x80, CHR 0x80], [CHR 0xE2, CHR 0x80, CHR 0x81],
      [CHR 0xE2, CHR 0x80, CHR 0x82], [CHR 0xE2, CHR 0x80, CHR 0x83],
      [CHR 0xE2, CHR 0x80, CHR 0x84], [CHR 0xE2, CHR 0x80, CHR 0x85],
      [CHR 0xE2, CHR 0x80, CHR 0x86], [CHR 0xE2, CHR 0x80, CHR 0x87],
      [CHR 0xE2, CHR 0x80, CHR 0x88], [CHR 0xE2, CHR 0x80, CHR 0x89],
      [CHR 0xE2, CHR 0x80, CHR 0x8A],
      [CHR 0xE2, CHR 0x80, CHR 0xA8], [CHR 0xE2, CHR 0x80, CHR 0xA9],
      [CHR 0xE2, CHR 0x80, CHR 0xAF],
      [CHR 0xE2, CHR 0x81, CHR 0x9F],
      [CHR 0xE3, CHR 0x80, CHR 0x80],
      [CHR 0xEF, CHR 0xBB, CHR 0xBF]]"

text \<open>Drop from the front of \<open>s\<close> every leading occurrence of a sequence of \<open>ps\<close>.\<close>

function stripLeading :: "string list \<Rightarrow> string \<Rightarrow> string" where
  "stripLeading ps s =
     (case List.find (\<lambda>p. p \<noteq> [] \<and> take (length p) s = p) ps of
        None \<Rightarrow> s
      | Some p \<Rightarrow> stripLeading ps (drop (length p) s))"
  by pat_completeness auto
termination
proof (relation "measure (\<lambda>(ps, s). length s)")
  show "wf (measure (\<lambda>(ps, s). length s))"
    by simp
next
  fix ps :: "string list" and s p :: string
  assume "List.find (\<lambda>p. p \<noteq> [] \<and> take (length p) s = p) ps = Some p"
  then have p: "p \<noteq> []" "take (length p) s = p"
    by (auto simp: find_Some_iff)
  have "length (take (length p) s) = length p"
    by (simp only: p(2))
  then have "length p \<le> length s"
    by simp
  moreover have "0 < length p"
    using p(1) by simp
  ultimately have "length s - length p < length s"
    by arith
  then show "((ps, drop (length p) s), (ps, s)) \<in> measure (\<lambda>(ps, s). length s)"
    by simp
qed

declare stripLeading.simps [simp del]

definition trim :: "string \<Rightarrow> string" where
  "trim s = rev (stripLeading (map rev whiteSpace) (rev (stripLeading whiteSpace s)))"

text \<open>Decimal numerals, for the template strings.\<close>

definition digitChar :: "nat \<Rightarrow> char" where
  "digitChar n = char_of (48 + n)"

function showNat :: "nat \<Rightarrow> string" where
  "showNat n = (if n < 10 then [digitChar n] else showNat (n div 10) @ [digitChar (n mod 10)])"
  by pat_completeness auto
termination
  by (relation "measure id") auto

declare showNat.simps [simp del]

definition showInt :: "int \<Rightarrow> string" where
  "showInt i = (if i < 0 then CHR ''-'' # showNat (nat (- i)) else showNat (nat i))"

text \<open>\<^verbatim>\<open>s.padStart(2, '0')\<close>\<close>

definition padStart2 :: "string \<Rightarrow> string" where
  "padStart2 s = replicate (2 - length s) CHR ''0'' @ s"

definition toTodoistDate :: "calendar \<Rightarrow> date option \<Rightarrow> string option" where
  "toTodoistDate cal d =
     (case d of
        None \<Rightarrow> None
      | Some t \<Rightarrow>
          let year = getFullYear cal t;
              month = padStart2 (showInt (getMonth cal t + 1));
              day = padStart2 (showInt (getDate cal t))
          in Some (showInt year @ ''-'' @ month @ ''-'' @ day))"

text \<open>
  A string-valued condition, \<^verbatim>\<open>if (s)\<close>: \<^verbatim>\<open>null\<close>, \<^verbatim>\<open>undefined\<close> and the empty
  string are falsy.
\<close>

definition truthy :: "string option \<Rightarrow> string option" where
  "truthy s = (case s of None \<Rightarrow> None | Some v \<Rightarrow> if v = [] then None else Some v)"

definition makeTaskKey :: "string \<Rightarrow> string \<Rightarrow> string" where
  "makeTaskKey projectId content = projectId @ ''::'' @ trim content"

subsection \<open>The record store\<close>

text \<open>
  The tables of the Prisma schema that the sync reads and writes, each a list of rows in
  the order \<^verbatim>\<open>findMany\<close> returns them. A SyncRun is identified by its position in its
  table (the schema's id is opaque). The bookkeeping columns \<^verbatim>\<open>createdAt\<close> and
  \<^verbatim>\<open>updatedAt\<close> are left out.
\<close>

datatype exn = Error string | Thrown

datatype runStatus = RUNNING | SUCCESS | ERROR

record user =
  user_id :: string
  todoistAccount :: "string option"

record course =
  course_id :: string
  userId :: string
  canvasCourseId :: string
  course_name :: string
  todoistProjectId :: "string option"

record assignment =
  assignment_id :: string
  courseId :: string
  canvasAssignmentId :: string
  name :: string
  description :: "string option"
  dueDate :: "date option"
  todoistTaskId :: "string option"
  lastSyncedAt :: "date option"

record syncRun =
  run_userId :: string
  startedAt :: date
  finishedAt :: "date option"
  status :: runStatus
  message :: "string option"

record store =
  users :: "user list"
  courses :: "course list"
  assignments :: "assignment list"
  syncRuns :: "syncRun list"

subsection \<open>The outside world\<close>

record todoistTask =
  task_id :: string
  content :: string
  project_id :: string

record updateBody =
  upd_priority :: number
  upd_due_date :: "string option"

record createBody =
  new_content :: string
  new_project_id :: string
  new_priority :: number
  new_due_date :: "string option"

text \<open>
  Everything outside the process is a state of type \<open>'e\<close> with these operations; the
  model is parametric in them. \<open>clock\<close> is \<^verbatim>\<open>new Date()\<close>. \<open>storeAccess\<close> is asked at
  every Prisma call and says whether the call throws. The three requests of the Todoist
  REST API answer \<open>None\<close> or \<open>False\<close> when axios throws (network failure, non-2xx
  status, malformed answer); the first argument is the access token.
\<close>

record 'e env =
  cal :: calendar
  clock :: "'e \<Rightarrow> date"
  storeAccess :: "'e \<Rightarrow> exn option \<times> 'e"
  getTasks :: "string \<Rightarrow> string \<Rightarrow> 'e \<Rightarrow> todoistTask list option \<times> 'e"
  postTask :: "string \<Rightarrow> string \<Rightarrow> updateBody \<Rightarrow> 'e \<Rightarrow> bool \<times> 'e"
  postNewTask :: "string \<Rightarrow> createBody \<Rightarrow> 'e \<Rightarrow> string option \<times> 'e"

text \<open>
  The trace is ghost state: the requests sent to Todoist with their outcome, the
  SyncRun rows written and the exceptions thrown by Prisma calls, in the order in which
  they happened.
\<close>

datatype event =
    RunCreated nat
  | RunFinalized nat runStatus
  | StoreThrew exn
  | ListTasks string bool
  | UpdateTask string updateBody bool
  | CreateTask createBody "string option"

record 'e world =
  outside :: 'e
  db :: store
  trace :: "event list"

subsection \<open>Prisma calls\<close>

text \<open>What every Prisma call does first: it may throw.\<close>

definition prisma :: "'e env \<Rightarrow> 'e world \<Rightarrow> exn option \<times> 'e world" where
  "prisma env w =
     (let (x, e) = storeAccess env (outside w) in
      case x of
        None \<Rightarrow> (None, w\<lparr>outside := e\<rparr>)
      | Some err \<Rightarrow> (Some err, w\<lparr>outside := e, trace := trace w @ [StoreThrew err]\<rparr>))"

text \<open>\<^verbatim>\<open>update\<close> of a row that does not exist throws.\<close>

definition notFound :: exn where
  "notFound = Error ''Record to update not found.''"

definition userFindUnique :: "'e env \<Rightarrow> string \<Rightarrow> 'e world \<Rightarrow> (exn + user option) \<times> 'e world" where
  "userFindUnique env uid w =
     (case prisma env w of
        (Some x, w') \<Rightarrow> (Inl x, w')
      | (None, w') \<Rightarrow> (Inr (List.find (\<lambda>u. user_id u = uid) (users (db w'))), w'))"

definition syncRunCreate :: "'e env \<Rightarrow> string \<Rightarrow> string \<Rightarrow> 'e world \<Rightarrow> (exn + nat) \<times> 'e world" where
  "syncRunCreate env uid msg w =
     (case prisma env w of
        (Some x, w') \<Rightarrow> (Inl x, w')
      | (None, w') \<Rightarrow>
          let rid = length (syncRuns (db w'));
              run = \<lparr>run_userId = uid, startedAt = clock env (outside w'), finishedAt = None,
                     status = RUNNING, message = Some msg\<rparr>
          in (Inr rid,
              w'\<lparr>db := (db w')\<lparr>syncRuns := syncRuns (db w') @ [run]\<rparr>,
                 trace := trace w' @ [RunCreated rid]\<rparr>))"

definition syncRunUpdate ::
  "'e env \<Rightarrow> nat \<Rightarrow> date \<Rightarrow> runStatus \<Rightarrow> string \<Rightarrow> 'e world \<Rightarrow> (exn + unit) \<times> 'e world" where
  "syncRunUpdate env rid fin st msg w =
     (case prisma env w of
        (Some x, w') \<Rightarrow> (Inl x, w')
      | (None, w') \<Rightarrow>
          if rid < length (syncRuns (db w')) then
            (Inr (),
             w'\<lparr>db := (db w')\<lparr>syncRuns := (syncRuns (db w'))
                    [rid := (syncRuns (db w') ! rid)\<lparr>finishedAt := Some fin, status := st,
                                                    message := Some msg\<rparr>]\<rparr>,
                trace := trace w' @ [RunFinalized rid st]\<rparr>)
          else (Inl notFound, w'\<lparr>trace := trace w' @ [StoreThrew notFound]\<rparr>))"

definition courseFindMany ::
  "'e env \<Rightarrow> string list \<Rightarrow> string \<Rightarrow> 'e world \<Rightarrow> (exn + course list) \<times> 'e world" where
  "courseFindMany env courseIds uid w =
     (case prisma env w of
        (Some x, w') \<Rightarrow> (Inl x, w')
      | (None, w') \<Rightarrow>
          (Inr (filter (\<lambda>c. course_id c \<in> set courseIds \<and> userId c = uid \<and> todoistProjectId c \<noteq> None)
                  (courses (db w'))), w'))"

definition assignmentFindMany ::
  "'e env \<Rightarrow> string list \<Rightarrow> 'e world \<Rightarrow> (exn + assignment list) \<times> 'e world" where
  "assignmentFindMany env courseIds w =
     (case prisma env w of
        (Some x, w') \<Rightarrow> (Inl x, w')
      | (None, w') \<Rightarrow> (Inr (filter (\<lambda>a. courseId a \<in> set courseIds) (assignments (db w'))), w'))"

definition assignmentUpdate ::
  "'e env \<Rightarrow> string \<Rightarrow> (assignment \<Rightarrow> assignment) \<Rightarrow> 'e world \<Rightarrow> (exn + unit) \<times> 'e world" where
  "assignmentUpdate env aid data w =
     (case prisma env w of
        (Some x, w') \<Rightarrow> (Inl x, w')
      | (None, w') \<Rightarrow>
          if aid \<in> set (map assignment_id (assignments (db w'))) then
            (Inr (),
             w'\<lparr>db := (db w')\<lparr>assignments :=
                    map (\<lambda>a. if assignment_id a = aid then data a else a) (assignments (db w'))\<rparr>\<rparr>)
          else (Inl notFound, w'\<lparr>trace := trace w' @ [StoreThrew notFound]\<rparr>))"

subsection \<open>Todoist requests\<close>

definition listTasks :: "'e env \<Rightarrow> string \<Rightarrow> string \<Rightarrow> 'e world \<Rightarrow> todoistTask list option \<times> 'e world" where
  "listTasks env token projectId w =
     (let (res, e) = getTasks env token projectId (outside w)
      in (res, w\<lparr>outside := e, trace := trace w @ [ListTasks projectId (res \<noteq> None)]\<rparr>))"

definition updateTask :: "'e env \<Rightarrow> string \<Rightarrow> string \<Rightarrow> updateBody \<Rightarrow> 'e world \<Rightarrow> bool \<times> 'e world" where
  "updateTask env token taskId body w =
     (let (ok, e) = postTask env token taskId body (outside w)
      in (ok, w\<lparr>outside := e, trace := trace w @ [UpdateTask taskId body ok]\<rparr>))"

definition createTask :: "'e env \<Rightarrow> string \<Rightarrow> createBody \<Rightarrow> 'e world \<Rightarrow> string option \<times> 'e world" where
  "createTask env token body w =
     (let (res, e) = postNewTask env token body (outside w)
      in (res, w\<lparr>outside := e, trace := trace w @ [CreateTask body res]\<rparr>))"

subsection \<open>The sync\<close>

definition markSuccess :: "'e env \<Rightarrow> nat \<Rightarrow> nat \<Rightarrow> nat \<Rightarrow> 'e world \<Rightarrow> (exn + unit) \<times> 'e world" where
  "markSuccess env rid created skipped w =
     syncRunUpdate env rid (clock env (outside w)) SUCCESS
       (''Created '' @ showNat created @ '' task(s), skipped '' @ showNat skipped @ ''.'') w"

definition errorMessage :: "exn \<Rightarrow> string" where
  "errorMessage err = (case err of Error m \<Rightarrow> m | Thrown \<Rightarrow> ''Unknown sync error'')"

definition markError :: "'e env \<Rightarrow> nat \<Rightarrow> exn \<Rightarrow> 'e world \<Rightarrow> (exn + unit) \<times> 'e world" where
  "markError env rid err w =
     syncRunUpdate env rid (clock env (outside w)) ERROR (errorMessage err) w"

text \<open>\<^verbatim>\<open>new Map(courses.map((c) => [c.id, c]))\<close>: a later entry replaces an earlier one.\<close>

definition courseByIdOf :: "course list \<Rightarrow> string \<Rightarrow> course option" where
  "courseByIdOf cs = map_of (rev (map (\<lambda>c. (course_id c, c)) cs))"

text \<open>\<^verbatim>\<open>Array.from(new Set(xs))\<close>: the first occurrence of each element, in order.\<close>

definition fromSet :: "'a list \<Rightarrow> 'a list" where
  "fromSet xs = rev (remdups (rev xs))"

definition projectIdsOf :: "course list \<Rightarrow> string list" where
  "projectIdsOf cs = fromSet (List.map_filter (\<lambda>c. truthy (todoistProjectId c)) cs)"

text \<open>The inner loop over the tasks of one project: the first task of a key wins.\<close>

fun indexTasks :: "string \<Rightarrow> todoistTask list \<Rightarrow> (string \<rightharpoonup> string) \<Rightarrow> (string \<rightharpoonup> string)" where
  "indexTasks projectId [] m = m"
| "indexTasks projectId (task # tasks) m =
     (let key = makeTaskKey projectId (content task)
      in indexTasks projectId tasks (if m key = None then m(key \<mapsto> task_id task) else m))"

text \<open>The loop over the projects; a failed listing leaves the index as it is.\<close>

fun loadExistingTasks ::
  "'e env \<Rightarrow> string \<Rightarrow> string list \<Rightarrow> (string \<rightharpoonup> string) \<Rightarrow> 'e world
     \<Rightarrow> (string \<rightharpoonup> string) \<times> 'e world" where
  "loadExistingTasks env token [] m w = (m, w)"
| "loadExistingTasks env token (projectId # projectIds) m w =
     (case listTasks env token projectId w of
        (Some tasks, w') \<Rightarrow> loadExistingTasks env token projectIds (indexTasks projectId tasks m) w'
      | (None, w') \<Rightarrow> loadExistingTasks env token projectIds m w')"

record lstate =
  existingTasksByKey :: "string \<rightharpoonup> string"
  created :: nat
  skipped :: nat

text \<open>
  The branch of an unlinked assignment whose key is in the index. Whatever the
  \<^verbatim>\<open>try\<close> block does, the \<^verbatim>\<open>continue\<close> after it ends the iteration.
\<close>

definition relinkExisting ::
  "'e env \<Rightarrow> string \<Rightarrow> assignment \<Rightarrow> string \<Rightarrow> number \<Rightarrow> string option \<Rightarrow> lstate \<Rightarrow> 'e world
     \<Rightarrow> (exn + lstate) \<times> 'e world" where
  "relinkExisting env token a existingTaskId priority due st w =
     (let updateBody = \<lparr>upd_priority = priority, upd_due_date = truthy due\<rparr> in
      case updateTask env token existingTaskId updateBody w of
        (False, w1) \<Rightarrow> (Inr st, w1)
      | (True, w1) \<Rightarrow>
          (case assignmentUpdate env (assignment_id a)
                  (\<lambda>r. r\<lparr>todoistTaskId := Some existingTaskId,
                         lastSyncedAt := Some (clock env (outside w1))\<rparr>) w1 of
             (Inl x, w2) \<Rightarrow> (Inr st, w2)
           | (Inr u, w2) \<Rightarrow> (Inr (st\<lparr>skipped := skipped st + 1\<rparr>), w2)))"

text \<open>The branch of an unlinked assignment with no match in the index.\<close>

definition createNew ::
  "'e env \<Rightarrow> string \<Rightarrow> assignment \<Rightarrow> string \<Rightarrow> string \<Rightarrow> number \<Rightarrow> string option \<Rightarrow> lstate
     \<Rightarrow> 'e world \<Rightarrow> (exn + lstate) \<times> 'e world" where
  "createNew env token a projectId taskKey priority due st w =
     (let body = \<lparr>new_content = name a, new_project_id = projectId,
                  new_priority = priority, new_due_date = truthy due\<rparr> in
      case createTask env token body w of
        (None, w1) \<Rightarrow> (Inr (st\<lparr>skipped := skipped st + 1\<rparr>), w1)
      | (Some newId, w1) \<Rightarrow>
          (case assignmentUpdate env (assignment_id a)
                  (\<lambda>r. r\<lparr>todoistTaskId := Some newId,
                         lastSyncedAt := Some (clock env (outside w1))\<rparr>) w1 of
             (Inl x, w2) \<Rightarrow> (Inr (st\<lparr>skipped := skipped st + 1\<rparr>), w2)
           | (Inr u, w2) \<Rightarrow>
               (Inr (st\<lparr>existingTasksByKey := (existingTasksByKey st)(taskKey \<mapsto> newId),
                        created := created st + 1\<rparr>), w2)))"

text \<open>
  The \<^verbatim>\<open>catch\<close> block of a linked assignment: its Prisma call is outside every
  \<^verbatim>\<open>try\<close> of the loop, so its exception leaves the loop.
\<close>

definition clearLink :: "'e env \<Rightarrow> assignment \<Rightarrow> lstate \<Rightarrow> 'e world \<Rightarrow> (exn + lstate) \<times> 'e world" where
  "clearLink env a st w =
     (case assignmentUpdate env (assignment_id a)
             (\<lambda>r. r\<lparr>todoistTaskId := None, lastSyncedAt := Some (clock env (outside w))\<rparr>) w of
        (Inl x, w') \<Rightarrow> (Inl x, w')
      | (Inr u, w') \<Rightarrow> (Inr (st\<lparr>skipped := skipped st + 1\<rparr>), w'))"

text \<open>The branch of a linked assignment.\<close>

definition updateLinked ::
  "'e env \<Rightarrow> string \<Rightarrow> assignment \<Rightarrow> string \<Rightarrow> number \<Rightarrow> string option \<Rightarrow> lstate \<Rightarrow> 'e world
     \<Rightarrow> (exn + lstate) \<times> 'e world" where
  "updateLinked env token a taskId priority due st w =
     (let updateBody = \<lparr>upd_priority = priority, upd_due_date = truthy due\<rparr> in
      case updateTask env token taskId updateBody w of
        (False, w1) \<Rightarrow> clearLink env a st w1
      | (True, w1) \<Rightarrow>
          (case assignmentUpdate env (assignment_id a)
                  (\<lambda>r. r\<lparr>lastSyncedAt := Some (clock env (outside w1))\<rparr>) w1 of
             (Inl x, w2) \<Rightarrow> clearLink env a st w2
           | (Inr u, w2) \<Rightarrow> (Inr st, w2)))"

text \<open>The body of \<^verbatim>\<open>for (const assignment of assignments)\<close>.\<close>

definition processAssignment ::
  "'e env \<Rightarrow> string \<Rightarrow> NormalizedPrioritySettings \<Rightarrow> (string \<Rightarrow> course option) \<Rightarrow> assignment
     \<Rightarrow> lstate \<Rightarrow> 'e world \<Rightarrow> (exn + lstate) \<times> 'e world" where
  "processAssignment env token normalizedSettings courseById a st w =
     (case courseById (courseId a) of
        None \<Rightarrow> (Inr (st\<lparr>skipped := skipped st + 1\<rparr>), w)
      | Some course \<Rightarrow>
          (case truthy (todoistProjectId course) of
             None \<Rightarrow> (Inr (st\<lparr>skipped := skipped st + 1\<rparr>), w)
           | Some projectId \<Rightarrow>
               let today = clock env (outside w);
                   bucket = conceptualBucket (cal env) today (dueDate a) normalizedSettings;
                   priority = bucketToTodoistPriority bucket normalizedSettings;
                   due = toTodoistDate (cal env) (dueDate a)
               in (case truthy (todoistTaskId a) of
                     None \<Rightarrow>
                       (let taskKey = makeTaskKey projectId (name a) in
                        (case truthy (existingTasksByKey st taskKey) of
                           Some existingTaskId \<Rightarrow>
                             relinkExisting env token a existingTaskId priority due st w
                         | None \<Rightarrow>
                             createNew env token a projectId taskKey priority due st w))
                   | Some taskId \<Rightarrow>
                       updateLinked env token a taskId priority due st w)))"

fun syncLoop ::
  "'e env \<Rightarrow> string \<Rightarrow> NormalizedPrioritySettings \<Rightarrow> (string \<Rightarrow> course option) \<Rightarrow> assignment list
     \<Rightarrow> lstate \<Rightarrow> 'e world \<Rightarrow> (exn + lstate) \<times> 'e world" where
  "syncLoop env token normalizedSettings courseById [] st w = (Inr st, w)"
| "syncLoop env token normalizedSettings courseById (a # as) st w =
     (case processAssignment env token normalizedSettings courseById a st w of
        (Inl x, w') \<Rightarrow> (Inl x, w')
      | (Inr st', w') \<Rightarrow> syncLoop env token normalizedSettings courseById as st' w')"

text \<open>The \<^verbatim>\<open>try\<close> block of the sync, for the SyncRun \<open>rid\<close>.\<close>

definition syncBody ::
  "'e env \<Rightarrow> string \<Rightarrow> string list \<Rightarrow> string \<Rightarrow> NormalizedPrioritySettings \<Rightarrow> nat \<Rightarrow> 'e world
     \<Rightarrow> (exn + nat \<times> nat) \<times> 'e world" where
  "syncBody env uid courseIds token normalizedSettings rid w =
     (case courseFindMany env courseIds uid w of
        (Inl x, w1) \<Rightarrow> (Inl x, w1)
      | (Inr cs, w1) \<Rightarrow>
          if length cs = 0 then
            (case markSuccess env rid 0 0 w1 of
               (Inl x, w2) \<Rightarrow> (Inl x, w2)
             | (Inr u, w2) \<Rightarrow> (Inr (0, 0), w2))
          else
            let courseById = courseByIdOf cs in
            (case assignmentFindMany env (fromSet (map course_id cs)) w1 of
               (Inl x, w2) \<Rightarrow> (Inl x, w2)
             | (Inr as, w2) \<Rightarrow>
                 (case loadExistingTasks env token (projectIdsOf cs) Map.empty w2 of
                    (existing, w3) \<Rightarrow>
                      (case syncLoop env token normalizedSettings courseById as
                              \<lparr>existingTasksByKey = existing, created = 0, skipped = 0\<rparr> w3 of
                         (Inl x, w4) \<Rightarrow> (Inl x, w4)
                       | (Inr st, w4) \<Rightarrow>
                           (case markSuccess env rid (created st) (skipped st) w4 of
                              (Inl x, w5) \<Rightarrow> (Inl x, w5)
                            | (Inr u, w5) \<Rightarrow> (Inr (created st, skipped st), w5))))))"

definition configNotFound :: exn where
  "configNotFound = Error ''Todoist configuration not found. Please save your Todoist token first.''"

text \<open>
  \<^verbatim>\<open>syncAssignmentsToTodoist\<close>: the result is the returned \<open>(created, skipped)\<close> or
  the exception thrown, with the world as the call leaves it.
\<close>

definition syncAssignmentsToTodoist ::
  "'e env \<Rightarrow> string \<Rightarrow> string list \<Rightarrow> PrioritySettingsInput option \<Rightarrow> 'e world
     \<Rightarrow> (exn + nat \<times> nat) \<times> 'e world" where
  "syncAssignmentsToTodoist env uid courseIds prioritySettings w =
     (if length courseIds = 0 then (Inr (0, 0), w)
      else
        case userFindUnique env uid w of
          (Inl x, w1) \<Rightarrow> (Inl x, w1)
        | (Inr None, w1) \<Rightarrow> (Inl configNotFound, w1)
        | (Inr (Some u), w1) \<Rightarrow>
            (case todoistAccount u of
               None \<Rightarrow> (Inl configNotFound, w1)
             | Some accessToken \<Rightarrow>
                 let normalizedSettings = normalizePrioritySettings prioritySettings in
                 (case syncRunCreate env (user_id u)
                         (''Starting sync for '' @ showNat (length courseIds) @ '' course(s).'') w1 of
                    (Inl x, w2) \<Rightarrow> (Inl x, w2)
                  | (Inr rid, w2) \<Rightarrow>
                      (case syncBody env uid courseIds accessToken normalizedSettings rid w2 of
                         (Inr r, w3) \<Rightarrow> (Inr r, w3)
                       | (Inl err, w3) \<Rightarrow>
                           (case markError env rid err w3 of
                              (Inl x, w4) \<Rightarrow> (Inl x, w4)
                            | (Inr v, w4) \<Rightarrow> (Inl err, w4))))))"

subsection \<open>Reference definitions, from the specification\<close>

text \<open>
  \<open>classifyBucket\<close> as the specification words it, on the whole days from today to the
  due date (\<open>None\<close> for an assignment with no due date): B1 when they are at most 0,
  else clamp them to \<open>[1,5]\<close> and compare with the thresholds of B1, B2 and B3.
\<close>

definition classifyBucket_spec :: "int option \<Rightarrow> NormalizedPrioritySettings \<Rightarrow> PriorityKey" where
  "classifyBucket_spec diffDays config =
     (case diffDays of
        None \<Rightarrow> P4
      | Some d \<Rightarrow>
          if d \<le> 0 then P1
          else
            let clamped = of_int (max 1 (min 5 d));
                t1 = to (ranges config P1);
                t2 = to (ranges config P2);
                t3 = to (ranges config P3)
            in if clamped \<le> t1 then P1
               else if clamped \<le> t2 then P2
               else if clamped \<le> t3 then P3
               else P4)"

text \<open>
  The bucket \<open>resolvePriority\<close> borrows from: the first enabled bucket scanning from
  \<open>bucket\<close> toward B1, else the first enabled bucket scanning from \<open>bucket\<close> toward B4.
\<close>

definition scanOrder_spec :: "PriorityKey \<Rightarrow> PriorityKey list" where
  "scanOrder_spec bucket =
     (case bucket of
        P1 \<Rightarrow> [P1, P2, P3, P4]
      | P2 \<Rightarrow> [P2, P1, P3, P4]
      | P3 \<Rightarrow> [P3, P2, P1, P4]
      | P4 \<Rightarrow> [P4, P3, P2, P1])"

definition selectBucket_spec :: "PriorityKey \<Rightarrow> NormalizedPrioritySettings \<Rightarrow> PriorityKey option" where
  "selectBucket_spec bucket config =
     List.find (\<lambda>k. enabled (ranges config k)) (scanOrder_spec bucket)"


subsection \<open>A reference outside world\<close>

text \<open>
  A small Todoist in memory and a server whose time zone is UTC (the proleptic Gregorian
  calendar on valid dates), for running the model on concrete inputs. A task can be listed and yet refuse its update (\<open>mem_locked\<close>);
  the store calls are counted, and those listed in \<open>mem_storeDown\<close> throw.
\<close>

definition civilFromDays :: "int \<Rightarrow> int \<times> int \<times> int" where
  "civilFromDays z0 =
     (let z = z0 + 719468;
          era = z div 146097;
          doe = z - era * 146097;
          yoe = (doe - doe div 1460 + doe div 36524 - doe div 146096) div 365;
          doy = doe - (365 * yoe + yoe div 4 - yoe div 100);
          mp = (5 * doy + 2) div 153;
          d = doy - (153 * mp + 2) div 5 + 1;
          m = (if mp < 10 then mp + 3 else mp - 9);
          y = yoe + era * 400 + (if m \<le> 2 then 1 else 0)
      in (y, m, d))"

definition daysFromCivil :: "int \<Rightarrow> int \<Rightarrow> int \<Rightarrow> int" where
  "daysFromCivil y0 m d =
     (let y = (if m \<le> 2 then y0 - 1 else y0);
          era = y div 400;
          yoe = y - era * 400;
          doy = (153 * (if m > 2 then m - 3 else m + 9) + 2) div 5 + d - 1;
          doe = yoe * 365 + yoe div 4 - yoe div 100 + doy
      in era * 146097 + doe - 719468)"

text \<open>
  \<^verbatim>\<open>new Date(year, month, day)\<close> takes a year from 0 to 99 as 1900 + year and carries
  a month outside 0 to 11 into the year; days beyond the month run on into the next.
\<close>

definition utc :: calendar where
  "utc =
     \<lparr>getFullYear = (\<lambda>t. fst (civilFromDays (t div 86400000))),
      getMonth = (\<lambda>t. fst (snd (civilFromDays (t div 86400000))) - 1),
      getDate = (\<lambda>t. snd (snd (civilFromDays (t div 86400000)))),
      newDate = (\<lambda>year month day.
        let y = (if 0 \<le> year \<and> year \<le> 99 then 1900 + year else year);
            months = y * 12 + month
        in (daysFromCivil (months div 12) (months mod 12 + 1) 1 + (day - 1)) * 86400000)\<rparr>"

record mem =
  mem_now :: date
  mem_tasks :: "todoistTask list"
  mem_next :: nat
  mem_locked :: "string list"
  mem_createDown :: bool
  mem_storeCalls :: nat
  mem_storeDown :: "nat list"

definition memEnv :: "mem env" where
  "memEnv =
     \<lparr>cal = utc,
      clock = mem_now,
      storeAccess = (\<lambda>e.
        (if mem_storeCalls e \<in> set (mem_storeDown e) then Some (Error ''store unreachable'') else None,
         e\<lparr>mem_storeCalls := mem_storeCalls e + 1\<rparr>)),
      getTasks = (\<lambda>token projectId e.
        (Some (filter (\<lambda>t. project_id t = projectId) (mem_tasks e)), e)),
      postTask = (\<lambda>token taskId body e.
        (taskId \<in> set (map task_id (mem_tasks e)) \<and> taskId \<notin> set (mem_locked e), e)),
      postNewTask = (\<lambda>token body e.
        if mem_createDown e then (None, e)
        else
          let newId = ''t'' @ showNat (mem_next e) in
          (Some newId,
           e\<lparr>mem_tasks := mem_tasks e @
                  [\<lparr>task_id = newId, content = new_content body, project_id = new_project_id body\<rparr>],
              mem_next := mem_next e + 1\<rparr>))\<rparr>"

text \<open>Noon UTC of 1970-01-05, and of the days around it.\<close>

definition noon :: "int \<Rightarrow> date" where
  "noon k = 388800000 + k * 86400000"

definition mem0 :: mem where
  "mem0 = \<lparr>mem_now = noon 0, mem_tasks = [], mem_next = 1, mem_locked = [],
           mem_createDown = False, mem_storeCalls = 0, mem_storeDown = []\<rparr>"

definition alice :: user where
  "alice = \<lparr>user_id = ''u1'', todoistAccount = Some ''token''\<rparr>"

definition math :: course where
  "math = \<lparr>course_id = ''c1'', userId = ''u1'', canvasCourseId = ''101'', course_name = ''Math'',
           todoistProjectId = Some ''p1''\<rparr>"

definition essay :: assignment where
  "essay = \<lparr>assignment_id = ''a1'', courseId = ''c1'', canvasAssignmentId = ''9001'',
            name = ''Essay'', description = None, dueDate = Some (noon 2),
            todoistTaskId = None, lastSyncedAt = None\<rparr>"

definition world0 :: "assignment list \<Rightarrow> mem \<Rightarrow> mem world" where
  "world0 as e =
     \<lparr>outside = e,
      db = \<lparr>users = [alice], courses = [math], assignments = as, syncRuns = []\<rparr>,
      trace = []\<rparr>"

text \<open>Settings for the examples: B1 disabled, thresholds out of order.\<close>

definition b1Disabled :: "PrioritySettingsInput option" where
  "b1Disabled =
     Some \<lparr>p1 = Some \<lparr>enabled_in = Some False, to_in = Some 2, todoistPriority_in = Some 4\<rparr>,
           p2 = Some \<lparr>enabled_in = Some True, to_in = Some 3, todoistPriority_in = Some 3\<rparr>,
           p3 = None, p4 = None\<rparr>"

text \<open>The example of the specification: thresholds 2, 3, 4, every bucket enabled.\<close>

definition specExample :: "PrioritySettingsInput option" where
  "specExample =
     Some \<lparr>p1 = Some \<lparr>enabled_in = Some True, to_in = Some 2, todoistPriority_in = None\<rparr>,
           p2 = Some \<lparr>enabled_in = Some True, to_in = Some 3, todoistPriority_in = None\<rparr>,
           p3 = Some \<lparr>enabled_in = Some True, to_in = Some 4, todoistPriority_in = None\<rparr>,
           p4 = Some \<lparr>enabled_in = Some True, to_in = None, todoistPriority_in = None\<rparr>\<rparr>"

text \<open>B3 disabled, its three neighbours enabled with priorities 4, 3 and 1.\<close>

definition b3Disabled :: "PrioritySettingsInput option" where
  "b3Disabled =
     Some \<lparr>p1 = None, p2 = None,
           p3 = Some \<lparr>enabled_in = Some False, to_in = None, todoistPriority_in = None\<rparr>,
           p4 = Some \<lparr>enabled_in = Some True, to_in = None, todoistPriority_in = None\<rparr>\<rparr>"

definition outOfOrder :: "bool \<Rightarrow> PrioritySettingsInput option" where
  "outOfOrder on =
     Some \<lparr>p1 = Some \<lparr>enabled_in = Some on, to_in = Some 4, todoistPriority_in = None\<rparr>,
           p2 = Some \<lparr>enabled_in = Some on, to_in = Some 2, todoistPriority_in = None\<rparr>,
           p3 = Some \<lparr>enabled_in = None, to_in = Some 1, todoistPriority_in = None\<rparr>,
           p4 = None\<rparr>"

subsection \<open>Notation for the statements\<close>

text \<open>The priority and the two request bodies the loop computes for an assignment.\<close>

definition priorityFor :: "'e env \<Rightarrow> NormalizedPrioritySettings \<Rightarrow> assignment \<Rightarrow> 'e world \<Rightarrow> number" where
  "priorityFor env s a w =
     bucketToTodoistPriority (conceptualBucket (cal env) (clock env (outside w)) (dueDate a) s) s"

definition updateBodyFor ::
  "'e env \<Rightarrow> NormalizedPrioritySettings \<Rightarrow> assignment \<Rightarrow> 'e world \<Rightarrow> updateBody" where
  "updateBodyFor env s a w =
     \<lparr>upd_priority = priorityFor env s a w,
      upd_due_date = truthy (toTodoistDate (cal env) (dueDate a))\<rparr>"

definition createBodyFor ::
  "'e env \<Rightarrow> NormalizedPrioritySettings \<Rightarrow> string \<Rightarrow> assignment \<Rightarrow> 'e world \<Rightarrow> createBody" where
  "createBodyFor env s projectId a w =
     \<lparr>new_content = name a, new_project_id = projectId,
      new_priority = priorityFor env s a w,
      new_due_date = truthy (toTodoistDate (cal env) (dueDate a))\<rparr>"

text \<open>The store after \<^verbatim>\<open>prisma.assignment.update\<close> of the row \<open>aid\<close>.\<close>

definition setAssignment :: "string \<Rightarrow> (assignment \<Rightarrow> assignment) \<Rightarrow> store \<Rightarrow> store" where
  "setAssignment aid data s =
     s\<lparr>assignments := map (\<lambda>r. if assignment_id r = aid then data r else r) (assignments s)\<rparr>"

text \<open>An assignment has a row in the store.\<close>

definition stored :: "assignment \<Rightarrow> store \<Rightarrow> bool" where
  "stored a s = (assignment_id a \<in> set (map assignment_id (assignments s)))"

text \<open>The events that write a SyncRun row, and those that are a Prisma exception.\<close>

fun isRunRow :: "event \<Rightarrow> bool" where
  "isRunRow (RunCreated rid) = True"
| "isRunRow (RunFinalized rid st) = True"
| "isRunRow (StoreThrew err) = False"
| "isRunRow (ListTasks projectId ok) = False"
| "isRunRow (UpdateTask taskId body ok) = False"
| "isRunRow (CreateTask body res) = False"

fun isStoreThrew :: "event \<Rightarrow> bool" where
  "isStoreThrew (StoreThrew err) = True"
| "isStoreThrew ev = False"

text \<open>Concrete worlds for the examples.\<close>

definition essayTask :: todoistTask where
  "essayTask = \<lparr>task_id = ''t7'', content = ''Essay '', project_id = ''p1''\<rparr>"

definition memWithTask :: mem where
  "memWithTask = mem0\<lparr>mem_tasks := [essayTask]\<rparr>"

definition memLocked :: mem where
  "memLocked = mem0\<lparr>mem_tasks := [essayTask], mem_locked := [''t7'']\<rparr>"

definition memCreateDown :: mem where
  "memCreateDown = mem0\<lparr>mem_createDown := True\<rparr>"

definition linkedEssay :: assignment where
  "linkedEssay = essay\<lparr>todoistTaskId := Some ''gone''\<rparr>"

definition defaults :: NormalizedPrioritySettings where
  "defaults = normalizePrioritySettings None"

definition lstate0 :: lstate where
  "lstate0 = \<lparr>existingTasksByKey = Map.empty, created = 0, skipped = 0\<rparr>"

definition lstateHit :: lstate where
  "lstateHit = lstate0\<lparr>existingTasksByKey := [''p1::Essay'' \<mapsto> ''t7'']\<rparr>"

definition unlinkedAgain :: assignment where
  "unlinkedAgain = linkedEssay\<lparr>todoistTaskId := None, lastSyncedAt := Some (noon 0)\<rparr>"

section \<open>Properties\<close>

subsection \<open>Classification\<close>

lemma clampDay_range: "1 \<le> clampDay v \<and> clampDay v \<le> 5"
  by (simp add: clampDay_def)

lemma clampDay_idem: "clampDay (clampDay v) = clampDay v"
  by (simp add: clampDay_def)

lemma clampDay_of_positive_int:
  fixes k :: int
  assumes "0 < k"
  shows "clampDay (if (of_int k :: real) > 5 then 5 else of_int k) = of_int (max 1 (min 5 k))"
proof -
  consider "k = 1" | "k = 2" | "k = 3" | "k = 4" | "5 \<le> k"
    using assms by linarith
  then show ?thesis
    by cases (auto simp: clampDay_def)
qed

lemma computeConceptualBucket_spec:
  "computeConceptualBucket (of_int k) s = classifyBucket_spec (Some k) s"
proof (cases "k \<le> 0")
  case True
  then show ?thesis
    by (simp add: computeConceptualBucket_def classifyBucket_spec_def)
next
  case False
  then have "0 < k" by simp
  from clampDay_of_positive_int[OF this] False show ?thesis
    by (simp add: computeConceptualBucket_def classifyBucket_spec_def Let_def)
qed

text \<open>
  \<open>Math.round\<close> of a difference of time values that is within half a day of \<open>k\<close> whole
  days (the half day before included, the half day after excluded) is \<open>k\<close>.
\<close>

lemma mathRound_days:
  fixes diffMs k :: int
  assumes "- 43200000 \<le> diffMs - k * 86400000" and "diffMs - k * 86400000 < 43200000"
  shows "mathRound (of_int diffMs / msPerDay) = of_int k"
proof -
  have lo: "of_int k \<le> (of_int diffMs :: real) / 86400000 + 1 / 2"
    using assms(1) by (simp add: field_simps)
  have hi: "(of_int diffMs :: real) / 86400000 + 1 / 2 < of_int k + 1"
    using assms(2) by (simp add: field_simps)
  have "\<lfloor>(of_int diffMs :: real) / 86400000 + 1 / 2\<rfloor> = k"
    using lo hi by (rule floor_unique)
  then show ?thesis
    by (simp add: mathRound_def msPerDay_def)
qed

lemma normalized_ordered:
  "1 \<le> to (ranges (normalizePrioritySettings s) P1) \<and>
   to (ranges (normalizePrioritySettings s) P1) \<le> to (ranges (normalizePrioritySettings s) P2) \<and>
   to (ranges (normalizePrioritySettings s) P2) \<le> to (ranges (normalizePrioritySettings s) P3) \<and>
   to (ranges (normalizePrioritySettings s) P3) \<le> 5 \<and>
   to (ranges (normalizePrioritySettings s) P4) = 5"
  apply (simp add: normalizePrioritySettings_def Let_def baseRanges_def clampDay_idem clampDay_range)
  apply (auto simp: clampDay_def)
  done

text \<open>
  C6. For every input settings, every calendar and every pair of dates: an assignment
  with no due date is in B4. For a due date whose local midnight is \<open>k\<close> whole days after
  today's local midnight (up to the hour a daylight-saving change moves a midnight, and
  anything less than half a day), the bucket the sync loop computes is the one the
  specification gives for \<open>k\<close> days: B1 when \<open>k \<le> 0\<close> whatever the thresholds, else \<open>k\<close>
  clamped to \<open>[1,5]\<close> and compared with the normalized thresholds \<open>t1 \<le> t2 \<le> t3\<close> of B1,
  B2 and B3.
\<close>

theorem classifyBucket_matches_spec:
  fixes settings :: "PrioritySettingsInput option"
  defines "n \<equiv> normalizePrioritySettings settings"
  shows "conceptualBucket c today None n = P4 \<and>
         classifyBucket_spec None n = P4 \<and>
         (\<forall>due k.
            - 43200000 \<le> midnight c due - midnight c today - k * 86400000 \<and>
            midnight c due - midnight c today - k * 86400000 < 43200000 \<longrightarrow>
            conceptualBucket c today (Some due) n = classifyBucket_spec (Some k) n \<and>
            (k \<le> 0 \<longrightarrow> conceptualBucket c today (Some due) n = P1)) \<and>
         to (ranges n P1) \<le> to (ranges n P2) \<and> to (ranges n P2) \<le> to (ranges n P3)"
proof -
  have dated: "conceptualBucket c today (Some due) n = classifyBucket_spec (Some k) n \<and>
      (k \<le> 0 \<longrightarrow> conceptualBucket c today (Some due) n = P1)"
    if "- 43200000 \<le> midnight c due - midnight c today - k * 86400000"
      and "midnight c due - midnight c today - k * 86400000 < 43200000" for due k
  proof -
    have "diffDaysOf c today due = of_int k"
      using mathRound_days[OF that] by (simp add: diffDaysOf_def Let_def)
    then have eq: "conceptualBucket c today (Some due) n = classifyBucket_spec (Some k) n"
      by (simp add: conceptualBucket_def computeConceptualBucket_spec)
    then show ?thesis
      by (simp add: classifyBucket_spec_def)
  qed
  have undated: "conceptualBucket c today None n = P4" "classifyBucket_spec None n = P4"
    by (simp_all add: conceptualBucket_def classifyBucket_spec_def)
  have ord: "to (ranges n P1) \<le> to (ranges n P2)" "to (ranges n P2) \<le> to (ranges n P3)"
    using normalized_ordered[of settings] by (simp_all add: n_def)
  have all: "\<forall>due k.
            - 43200000 \<le> midnight c due - midnight c today - k * 86400000 \<and>
            midnight c due - midnight c today - k * 86400000 < 43200000 \<longrightarrow>
            conceptualBucket c today (Some due) n = classifyBucket_spec (Some k) n \<and>
            (k \<le> 0 \<longrightarrow> conceptualBucket c today (Some due) n = P1)"
  proof (intro allI impI)
    fix due k
    assume h: "- 43200000 \<le> midnight c due - midnight c today - k * 86400000 \<and>
            midnight c due - midnight c today - k * 86400000 < 43200000"
    from h have a: "- 43200000 \<le> midnight c due - midnight c today - k * 86400000"
      by (rule conjunct1)
    from h have b: "midnight c due - midnight c today - k * 86400000 < 43200000"
      by (rule conjunct2)
    show "conceptualBucket c today (Some due) n = classifyBucket_spec (Some k) n \<and>
        (k \<le> 0 \<longrightarrow> conceptualBucket c today (Some due) n = P1)"
      using a b by (rule dated)
  qed
  show ?thesis
    by (rule conjI[OF undated(1) conjI[OF undated(2) conjI[OF all conjI[OF ord(1) ord(2)]]]])
qed

lemma utc_midnights:
  "midnight utc (noon 0) = 345600000"
  "midnight utc (noon 2) = 518400000"
  "midnight utc (noon 6) = 864000000"
  by code_simp+

lemma spec_thresholds:
  "to (ranges (normalizePrioritySettings specExample) P1) = 2"
  "to (ranges (normalizePrioritySettings specExample) P2) = 3"
  "to (ranges (normalizePrioritySettings specExample) P3) = 4"
  by (simp_all add: normalizePrioritySettings_def baseRanges_def specExample_def chain_def
      nullish_def clampDay_def Let_def)

text \<open>
  The examples of the specification, on a server in UTC: with thresholds 2, 3 and 4, a
  due date 2 days from today is in B1 and one 6 days out is in B4.
\<close>

theorem classifyBucket_matches_spec_witness:
  "- 43200000 \<le> midnight utc (noon 2) - midnight utc (noon 0) - 2 * 86400000 \<and>
   midnight utc (noon 2) - midnight utc (noon 0) - 2 * 86400000 < 43200000 \<and>
   conceptualBucket utc (noon 0) (Some (noon 2)) (normalizePrioritySettings specExample) = P1 \<and>
   - 43200000 \<le> midnight utc (noon 6) - midnight utc (noon 0) - 6 * 86400000 \<and>
   midnight utc (noon 6) - midnight utc (noon 0) - 6 * 86400000 < 43200000 \<and>
   conceptualBucket utc (noon 0) (Some (noon 6)) (normalizePrioritySettings specExample) = P4"
proof -
  note main = classifyBucket_matches_spec[of utc "noon 0" specExample,
      THEN conjunct2, THEN conjunct2, THEN conjunct1, rule_format]
  have two: "- 43200000 \<le> midnight utc (noon 2) - midnight utc (noon 0) - 2 * 86400000 \<and>
      midnight utc (noon 2) - midnight utc (noon 0) - 2 * 86400000 < 43200000"
    by (simp add: utc_midnights)
  have six: "- 43200000 \<le> midnight utc (noon 6) - midnight utc (noon 0) - 6 * 86400000 \<and>
      midnight utc (noon 6) - midnight utc (noon 0) - 6 * 86400000 < 43200000"
    by (simp add: utc_midnights)
  have "conceptualBucket utc (noon 0) (Some (noon 2)) (normalizePrioritySettings specExample) = P1"
    using main[OF two] by (simp add: classifyBucket_spec_def spec_thresholds)
  moreover
  have "conceptualBucket utc (noon 0) (Some (noon 6)) (normalizePrioritySettings specExample) = P4"
    using main[OF six] by (simp add: classifyBucket_spec_def spec_thresholds)
  ultimately show ?thesis
    using two six by blast
qed

subsection \<open>Priority of a bucket\<close>

lemma scanDown_end: "length order \<le> i \<Longrightarrow> scanDown settings i = None"
  by (simp add: scanDown.simps)

lemma scanDown_step:
  "i < length order \<Longrightarrow>
   scanDown settings i =
     (if enabled (ranges settings (order ! i)) then Some (todoistPriority (ranges settings (order ! i)))
      else scanDown settings (Suc i))"
  by (subst scanDown.simps) (simp add: Let_def)

lemma scanDown_values:
  "scanDown s (Suc (Suc (Suc (Suc 0)))) = None"
  "scanDown s (Suc (Suc (Suc 0))) =
     (if enabled (ranges s P4) then Some (todoistPriority (ranges s P4)) else None)"
  "scanDown s (Suc (Suc 0)) =
     (if enabled (ranges s P3) then Some (todoistPriority (ranges s P3))
      else if enabled (ranges s P4) then Some (todoistPriority (ranges s P4)) else None)"
  "scanDown s (Suc 0) =
     (if enabled (ranges s P2) then Some (todoistPriority (ranges s P2))
      else if enabled (ranges s P3) then Some (todoistPriority (ranges s P3))
      else if enabled (ranges s P4) then Some (todoistPriority (ranges s P4)) else None)"
  by (simp_all add: scanDown_step scanDown_end order_def)

lemma all_keys: "(\<forall>k. P k) \<longleftrightarrow> P P1 \<and> P P2 \<and> P P3 \<and> P P4"
  by (metis PriorityKey.exhaust)

lemma indexOf_values:
  "indexOf order P1 = 0" "indexOf order P2 = Suc 0" "indexOf order P3 = Suc (Suc 0)"
  "indexOf order P4 = Suc (Suc (Suc 0))"
  by (simp_all add: order_def)

lemma selectBucket_values:
  "selectBucket_spec P1 s =
     (if enabled (ranges s P1) then Some P1 else if enabled (ranges s P2) then Some P2
      else if enabled (ranges s P3) then Some P3 else if enabled (ranges s P4) then Some P4
      else None)"
  "selectBucket_spec P2 s =
     (if enabled (ranges s P2) then Some P2 else if enabled (ranges s P1) then Some P1
      else if enabled (ranges s P3) then Some P3 else if enabled (ranges s P4) then Some P4
      else None)"
  "selectBucket_spec P3 s =
     (if enabled (ranges s P3) then Some P3 else if enabled (ranges s P2) then Some P2
      else if enabled (ranges s P1) then Some P1 else if enabled (ranges s P4) then Some P4
      else None)"
  "selectBucket_spec P4 s =
     (if enabled (ranges s P4) then Some P4 else if enabled (ranges s P3) then Some P3
      else if enabled (ranges s P2) then Some P2 else if enabled (ranges s P1) then Some P1
      else None)"
  by (simp_all add: selectBucket_spec_def scanOrder_spec_def)

lemma bucketToTodoistPriority_values:
  "bucketToTodoistPriority P1 s =
     (if enabled (ranges s P1) then todoistPriority (ranges s P1)
      else if enabled (ranges s P2) then todoistPriority (ranges s P2)
      else if enabled (ranges s P3) then todoistPriority (ranges s P3)
      else if enabled (ranges s P4) then todoistPriority (ranges s P4) else 2)"
  "bucketToTodoistPriority P2 s =
     (if enabled (ranges s P2) then todoistPriority (ranges s P2)
      else if enabled (ranges s P1) then todoistPriority (ranges s P1)
      else if enabled (ranges s P3) then todoistPriority (ranges s P3)
      else if enabled (ranges s P4) then todoistPriority (ranges s P4) else 2)"
  "bucketToTodoistPriority P3 s =
     (if enabled (ranges s P3) then todoistPriority (ranges s P3)
      else if enabled (ranges s P2) then todoistPriority (ranges s P2)
      else if enabled (ranges s P1) then todoistPriority (ranges s P1)
      else if enabled (ranges s P4) then todoistPriority (ranges s P4) else 2)"
  "bucketToTodoistPriority P4 s =
     (if enabled (ranges s P4) then todoistPriority (ranges s P4)
      else if enabled (ranges s P3) then todoistPriority (ranges s P3)
      else if enabled (ranges s P2) then todoistPriority (ranges s P2)
      else if enabled (ranges s P1) then todoistPriority (ranges s P1) else 2)"
  by (simp_all add: bucketToTodoistPriority_def indexOf_values Let_def scanDown_values order_def)

text \<open>
  C7. For every bucket and every settings, \<open>bucketToTodoistPriority\<close> returns the
  configured priority of the bucket the specification selects: the first enabled one
  in the order B1, B2, B3, B4 for B1; B2, B1, B3, B4 for B2; B3, B2, B1, B4 for B3;
  B4, B3, B2, B1 for B4 (from the bucket toward B1, then from the bucket toward B4).
  The selected bucket is enabled; no bucket is selected, and the fallback 2 is returned,
  exactly when every bucket is disabled.
\<close>

theorem resolvePriority_first_enabled:
  "bucketToTodoistPriority bucket settings =
     (case selectBucket_spec bucket settings of
        Some k \<Rightarrow> todoistPriority (ranges settings k)
      | None \<Rightarrow> 2) \<and>
   (\<forall>k. selectBucket_spec bucket settings = Some k \<longrightarrow> enabled (ranges settings k)) \<and>
   (selectBucket_spec bucket settings = None \<longleftrightarrow> (\<forall>k. \<not> enabled (ranges settings k)))"
  by (cases bucket) (simp_all add: bucketToTodoistPriority_values selectBucket_values all_keys)

lemma b3Disabled_ranges:
  "enabled (ranges (normalizePrioritySettings b3Disabled) P1)"
  "enabled (ranges (normalizePrioritySettings b3Disabled) P2)"
  "\<not> enabled (ranges (normalizePrioritySettings b3Disabled) P3)"
  "enabled (ranges (normalizePrioritySettings b3Disabled) P4)"
  "todoistPriority (ranges (normalizePrioritySettings b3Disabled) P1) = 4"
  "todoistPriority (ranges (normalizePrioritySettings b3Disabled) P2) = 3"
  "todoistPriority (ranges (normalizePrioritySettings b3Disabled) P4) = 1"
  by (simp_all add: normalizePrioritySettings_def baseRanges_def b3Disabled_def chain_def
      nullish_def Let_def)

lemma b1Disabled_ranges:
  "\<not> enabled (ranges (normalizePrioritySettings b1Disabled) P1)"
  "enabled (ranges (normalizePrioritySettings b1Disabled) P2)"
  "todoistPriority (ranges (normalizePrioritySettings b1Disabled) P2) = 3"
  by (simp_all add: normalizePrioritySettings_def baseRanges_def b1Disabled_def chain_def
      nullish_def Let_def)

text \<open>
  With B3 disabled and its neighbours enabled with priorities 4 (B1), 3 (B2) and 1 (B4),
  an assignment classified B3 borrows 3 from B2, the nearest enabled bucket toward B1,
  not 4 from B1 and not 1 from B4. The example of the specification: with B1 disabled
  and B2 enabled with priority 3, an assignment classified B1 borrows from B2.
\<close>

theorem resolvePriority_first_enabled_witness:
  "selectBucket_spec P3 (normalizePrioritySettings b3Disabled) = Some P2 \<and>
   enabled (ranges (normalizePrioritySettings b3Disabled) P2) \<and>
   bucketToTodoistPriority P3 (normalizePrioritySettings b3Disabled) = 3 \<and>
   selectBucket_spec P1 (normalizePrioritySettings b1Disabled) = Some P2 \<and>
   bucketToTodoistPriority P1 (normalizePrioritySettings b1Disabled) = 3"
proof -
  have sel3: "selectBucket_spec P3 (normalizePrioritySettings b3Disabled) = Some P2"
    by (simp add: selectBucket_spec_def scanOrder_spec_def b3Disabled_ranges)
  have sel1: "selectBucket_spec P1 (normalizePrioritySettings b1Disabled) = Some P2"
    by (simp add: selectBucket_spec_def scanOrder_spec_def b1Disabled_ranges)
  show ?thesis
    using resolvePriority_first_enabled[of P3 "normalizePrioritySettings b3Disabled"]
      resolvePriority_first_enabled[of P1 "normalizePrioritySettings b1Disabled"]
      sel3 sel1 b3Disabled_ranges(6) b1Disabled_ranges(3)
    by simp
qed

subsection \<open>Normalization of the thresholds\<close>

lemma normalized_to:
  "to (ranges (normalizePrioritySettings s) P1) = clampDay (nullish (chain s p1 to_in) 2)"
  "to (ranges (normalizePrioritySettings s) P2) =
     (if clampDay (nullish (chain s p2 to_in) 3) < clampDay (nullish (chain s p1 to_in) 2)
      then clampDay (clampDay (nullish (chain s p1 to_in) 2) + 1)
      else clampDay (nullish (chain s p2 to_in) 3))"
  "to (ranges (normalizePrioritySettings s) P3) =
     (if clampDay (nullish (chain s p3 to_in) 4) < to (ranges (normalizePrioritySettings s) P2)
      then clampDay (to (ranges (normalizePrioritySettings s) P2) + 1)
      else clampDay (nullish (chain s p3 to_in) 4))"
  "to (ranges (normalizePrioritySettings s) P4) = 5"
  by (simp_all add: normalizePrioritySettings_def Let_def baseRanges_def clampDay_idem)

text \<open>
  C8. For every input settings (absent, partial or out of order), the normalized
  thresholds satisfy \<open>1 \<le> t1 \<le> t2 \<le> t3 \<le> 5\<close> and the threshold of B4 is 5; \<open>t1\<close> is the
  clamped input, \<open>t2\<close> and \<open>t3\<close> are at least their clamped inputs (a violation moves the
  later threshold up); and the four thresholds are the same for any other input with
  the same three \<open>to\<close> fields, whatever its \<open>enabled\<close> flags and priorities.
\<close>

theorem normalized_thresholds_ordered:
  fixes settings :: "PrioritySettingsInput option"
  defines "n \<equiv> normalizePrioritySettings settings"
  shows "1 \<le> to (ranges n P1) \<and> to (ranges n P1) \<le> to (ranges n P2) \<and>
         to (ranges n P2) \<le> to (ranges n P3) \<and> to (ranges n P3) \<le> 5 \<and>
         to (ranges n P4) = 5 \<and>
         to (ranges n P1) = clampDay (nullish (chain settings p1 to_in) 2) \<and>
         clampDay (nullish (chain settings p2 to_in) 3) \<le> to (ranges n P2) \<and>
         clampDay (nullish (chain settings p3 to_in) 4) \<le> to (ranges n P3) \<and>
         (\<forall>settings'.
            chain settings' p1 to_in = chain settings p1 to_in \<and>
            chain settings' p2 to_in = chain settings p2 to_in \<and>
            chain settings' p3 to_in = chain settings p3 to_in \<longrightarrow>
            (\<forall>k. to (ranges (normalizePrioritySettings settings') k) = to (ranges n k)))"
proof -
  have ord: "1 \<le> to (ranges n P1) \<and> to (ranges n P1) \<le> to (ranges n P2) \<and>
      to (ranges n P2) \<le> to (ranges n P3) \<and> to (ranges n P3) \<le> 5 \<and> to (ranges n P4) = 5"
    unfolding n_def by (rule normalized_ordered)
  have t1: "to (ranges n P1) = clampDay (nullish (chain settings p1 to_in) 2)"
    by (simp add: n_def normalized_to)
  have t2: "clampDay (nullish (chain settings p2 to_in) 3) \<le> to (ranges n P2)"
    using ord by (simp add: n_def normalized_to(1,2) split: if_splits)
  have t3: "clampDay (nullish (chain settings p3 to_in) 4) \<le> to (ranges n P3)"
    using ord by (simp add: n_def normalized_to(3) split: if_splits)
  have same: "to (ranges (normalizePrioritySettings settings') k) = to (ranges n k)"
    if "chain settings' p1 to_in = chain settings p1 to_in"
      and "chain settings' p2 to_in = chain settings p2 to_in"
      and "chain settings' p3 to_in = chain settings p3 to_in"
    for settings' k
  proof -
    have 1: "to (ranges (normalizePrioritySettings settings') P1) = to (ranges n P1)"
      by (simp add: n_def normalized_to(1) that)
    have 2: "to (ranges (normalizePrioritySettings settings') P2) = to (ranges n P2)"
      by (simp add: n_def normalized_to(2) that)
    have 3: "to (ranges (normalizePrioritySettings settings') P3) = to (ranges n P3)"
      using 2 by (simp add: n_def normalized_to(3) that)
    have 4: "to (ranges (normalizePrioritySettings settings') P4) = to (ranges n P4)"
      by (simp add: n_def normalized_to(4))
    show ?thesis
      using 1 2 3 4 by (cases k) simp_all
  qed
  show ?thesis
    using ord t1 t2 t3 same by blast
qed

text \<open>
  Thresholds 4, 2, 1 become 4, 5, 5, with every bucket enabled as with every bucket
  disabled.
\<close>

theorem normalized_thresholds_ordered_witness:
  "chain (outOfOrder False) p1 to_in = chain (outOfOrder True) p1 to_in \<and>
   chain (outOfOrder False) p2 to_in = chain (outOfOrder True) p2 to_in \<and>
   chain (outOfOrder False) p3 to_in = chain (outOfOrder True) p3 to_in \<and>
   to (ranges (normalizePrioritySettings (outOfOrder True)) P1) = 4 \<and>
   to (ranges (normalizePrioritySettings (outOfOrder True)) P2) = 5 \<and>
   to (ranges (normalizePrioritySettings (outOfOrder False)) P2) =
     to (ranges (normalizePrioritySettings (outOfOrder True)) P2)"
proof -
  have h: "chain (outOfOrder False) p1 to_in = chain (outOfOrder True) p1 to_in \<and>
      chain (outOfOrder False) p2 to_in = chain (outOfOrder True) p2 to_in \<and>
      chain (outOfOrder False) p3 to_in = chain (outOfOrder True) p3 to_in"
    by (simp add: outOfOrder_def chain_def)
  have v: "to (ranges (normalizePrioritySettings (outOfOrder True)) P1) = 4 \<and>
      to (ranges (normalizePrioritySettings (outOfOrder True)) P2) = 5"
    by (simp add: normalized_to outOfOrder_def chain_def nullish_def clampDay_def)
  show ?thesis
    using normalized_thresholds_ordered[of "outOfOrder True"] h v by blast
qed

subsection \<open>The window filter\<close>




subsection \<open>One iteration of the sync loop\<close>

lemma prisma_ok:
  "storeAccess env (outside w) = (None, e) \<Longrightarrow> prisma env w = (None, w\<lparr>outside := e\<rparr>)"
  by (simp add: prisma_def)

lemma assignmentUpdate_ok:
  assumes "storeAccess env (outside w) = (None, e)" and "stored a (db w)"
  shows "assignmentUpdate env (assignment_id a) data w =
           (Inr (), w\<lparr>outside := e, db := setAssignment (assignment_id a) data (db w)\<rparr>)"
  using assms by (simp add: assignmentUpdate_def prisma_ok stored_def setAssignment_def)

lemma updateTask_eq:
  "postTask env token taskId body (outside w) = (ok, e) \<Longrightarrow>
   updateTask env token taskId body w =
     (ok, w\<lparr>outside := e, trace := trace w @ [UpdateTask taskId body ok]\<rparr>)"
  by (simp add: updateTask_def)

lemma createTask_eq:
  "postNewTask env token body (outside w) = (res, e) \<Longrightarrow>
   createTask env token body w =
     (res, w\<lparr>outside := e, trace := trace w @ [CreateTask body res]\<rparr>)"
  by (simp add: createTask_def)

lemma truthy_Some: "truthy x = Some v \<longleftrightarrow> x = Some v \<and> v \<noteq> []"
  by (auto simp: truthy_def split: option.splits)

lemma relink_step:
  assumes cb: "courseById (courseId a) = Some c"
    and pid: "truthy (todoistProjectId c) = Some pid"
    and unl: "truthy (todoistTaskId a) = None"
    and hit: "truthy (existingTasksByKey st (makeTaskKey pid (name a))) = Some tid"
    and upd: "postTask env token tid (updateBodyFor env s a w) (outside w) = (True, e1)"
    and sto: "storeAccess env e1 = (None, e2)"
    and row: "stored a (db w)"
  shows "processAssignment env token s courseById a st w =
           (Inr (st\<lparr>skipped := skipped st + 1\<rparr>),
            w\<lparr>outside := e2,
              db := setAssignment (assignment_id a)
                      (\<lambda>r. r\<lparr>todoistTaskId := Some tid, lastSyncedAt := Some (clock env e1)\<rparr>) (db w),
              trace := trace w @ [UpdateTask tid (updateBodyFor env s a w) True]\<rparr>)"
proof -
  let ?w1 = "w\<lparr>outside := e1, trace := trace w @ [UpdateTask tid (updateBodyFor env s a w) True]\<rparr>"
  have u: "updateTask env token tid (updateBodyFor env s a w) w = (True, ?w1)"
    using upd by (rule updateTask_eq)
  have st: "storeAccess env (outside ?w1) = (None, e2)" "stored a (db ?w1)"
    using sto row by simp_all
  show ?thesis
    using cb pid unl hit u assignmentUpdate_ok[OF st]
    by (simp add: processAssignment_def relinkExisting_def Let_def updateBodyFor_def priorityFor_def)
qed

lemma relink_failed_step:
  assumes cb: "courseById (courseId a) = Some c"
    and pid: "truthy (todoistProjectId c) = Some pid"
    and unl: "truthy (todoistTaskId a) = None"
    and hit: "truthy (existingTasksByKey st (makeTaskKey pid (name a))) = Some tid"
    and upd: "postTask env token tid (updateBodyFor env s a w) (outside w) = (False, e1)"
  shows "processAssignment env token s courseById a st w =
           (Inr st, w\<lparr>outside := e1, trace := trace w @ [UpdateTask tid (updateBodyFor env s a w) False]\<rparr>)"
  using cb pid unl hit updateTask_eq[OF upd]
  by (simp add: processAssignment_def relinkExisting_def Let_def updateBodyFor_def priorityFor_def)

lemma create_step:
  assumes cb: "courseById (courseId a) = Some c"
    and pid: "truthy (todoistProjectId c) = Some pid"
    and unl: "truthy (todoistTaskId a) = None"
    and miss: "truthy (existingTasksByKey st (makeTaskKey pid (name a))) = None"
    and new: "postNewTask env token (createBodyFor env s pid a w) (outside w) = (Some newId, e1)"
    and sto: "storeAccess env e1 = (None, e2)"
    and row: "stored a (db w)"
  shows "processAssignment env token s courseById a st w =
           (Inr (st\<lparr>existingTasksByKey := (existingTasksByKey st)(makeTaskKey pid (name a) \<mapsto> newId),
                    created := created st + 1\<rparr>),
            w\<lparr>outside := e2,
              db := setAssignment (assignment_id a)
                      (\<lambda>r. r\<lparr>todoistTaskId := Some newId, lastSyncedAt := Some (clock env e1)\<rparr>) (db w),
              trace := trace w @ [CreateTask (createBodyFor env s pid a w) (Some newId)]\<rparr>)"
proof -
  let ?w1 = "w\<lparr>outside := e1, trace := trace w @ [CreateTask (createBodyFor env s pid a w) (Some newId)]\<rparr>"
  have u: "createTask env token (createBodyFor env s pid a w) w = (Some newId, ?w1)"
    using new by (rule createTask_eq)
  have st: "storeAccess env (outside ?w1) = (None, e2)" "stored a (db ?w1)"
    using sto row by simp_all
  show ?thesis
    using cb pid unl miss u assignmentUpdate_ok[OF st]
    by (simp add: processAssignment_def createNew_def Let_def createBodyFor_def priorityFor_def)
qed

lemma create_failed_step:
  assumes cb: "courseById (courseId a) = Some c"
    and pid: "truthy (todoistProjectId c) = Some pid"
    and unl: "truthy (todoistTaskId a) = None"
    and miss: "truthy (existingTasksByKey st (makeTaskKey pid (name a))) = None"
    and new: "postNewTask env token (createBodyFor env s pid a w) (outside w) = (None, e1)"
  shows "processAssignment env token s courseById a st w =
           (Inr (st\<lparr>skipped := skipped st + 1\<rparr>),
            w\<lparr>outside := e1, trace := trace w @ [CreateTask (createBodyFor env s pid a w) None]\<rparr>)"
  using cb pid unl miss createTask_eq[OF new]
  by (simp add: processAssignment_def createNew_def Let_def createBodyFor_def priorityFor_def)

lemma linked_step:
  assumes cb: "courseById (courseId a) = Some c"
    and pid: "truthy (todoistProjectId c) = Some pid"
    and lnk: "truthy (todoistTaskId a) = Some t"
    and upd: "postTask env token t (updateBodyFor env s a w) (outside w) = (ok, e1)"
    and sto: "storeAccess env e1 = (None, e2)"
    and row: "stored a (db w)"
  shows "processAssignment env token s courseById a st w =
           (Inr (if ok then st else st\<lparr>skipped := skipped st + 1\<rparr>),
            w\<lparr>outside := e2,
              db := setAssignment (assignment_id a)
                      (\<lambda>r. if ok then r\<lparr>lastSyncedAt := Some (clock env e1)\<rparr>
                           else r\<lparr>todoistTaskId := None, lastSyncedAt := Some (clock env e1)\<rparr>) (db w),
              trace := trace w @ [UpdateTask t (updateBodyFor env s a w) ok]\<rparr>)"
proof -
  let ?w1 = "w\<lparr>outside := e1, trace := trace w @ [UpdateTask t (updateBodyFor env s a w) ok]\<rparr>"
  have u: "updateTask env token t (updateBodyFor env s a w) w = (ok, ?w1)"
    using upd by (rule updateTask_eq)
  have st: "storeAccess env (outside ?w1) = (None, e2)" "stored a (db ?w1)"
    using sto row by simp_all
  show ?thesis
    using cb pid lnk u assignmentUpdate_ok[OF st]
    by (cases ok)
       (simp_all add: processAssignment_def updateLinked_def clearLink_def Let_def
          updateBodyFor_def priorityFor_def)
qed

lemma stored_setAssignment:
  "(\<And>r. assignment_id (data r) = assignment_id r) \<Longrightarrow>
   stored a (setAssignment aid data s) = stored a s"
  by (simp add: stored_def setAssignment_def image_iff) (metis (no_types, lifting) image_iff)

text \<open>
  C4. An unlinked assignment whose key has a non-empty task id in the index, and whose
  update request and store write succeed: the iteration stores that task id as the link
  with \<open>lastSyncedAt\<close>, adds one to \<open>skipped\<close> and nothing to \<open>created\<close>, leaves the
  index as it is, and sends the update request and no other request. And the key of a
  task created earlier in the same run is in the index: when the loop runs over two
  unlinked assignments of one project with the same trimmed name and the key is not yet
  in the index, it creates one task, links the second assignment to it by an update,
  and sends no second creation.
\<close>

theorem relink_without_duplicate:
  assumes cb: "courseById (courseId a) = Some c"
    and pid: "truthy (todoistProjectId c) = Some pid"
    and unl: "truthy (todoistTaskId a) = None"
    and hit: "truthy (existingTasksByKey st (makeTaskKey pid (name a))) = Some tid"
    and upd: "postTask env token tid (updateBodyFor env s a w) (outside w) = (True, e1)"
    and sto: "storeAccess env e1 = (None, e2)"
    and row: "stored a (db w)"
  shows "processAssignment env token s courseById a st w =
           (Inr (st\<lparr>skipped := skipped st + 1\<rparr>),
            w\<lparr>outside := e2,
              db := setAssignment (assignment_id a)
                      (\<lambda>r. r\<lparr>todoistTaskId := Some tid, lastSyncedAt := Some (clock env e1)\<rparr>) (db w),
              trace := trace w @ [UpdateTask tid (updateBodyFor env s a w) True]\<rparr>) \<and>
         (\<forall>b cb st0 w0 newId e3 e4 e5 e6.
            courseById (courseId b) = Some cb \<and>
            truthy (todoistProjectId cb) = Some pid \<and>
            truthy (todoistTaskId b) = None \<and>
            makeTaskKey pid (name b) = makeTaskKey pid (name a) \<and>
            truthy (existingTasksByKey st0 (makeTaskKey pid (name b))) = None \<and>
            postNewTask env token (createBodyFor env s pid b w0) (outside w0) = (Some newId, e3) \<and>
            newId \<noteq> [] \<and>
            storeAccess env e3 = (None, e4) \<and>
            stored b (db w0) \<and> stored a (db w0) \<and>
            postTask env token newId (updateBodyFor env s a (w0\<lparr>outside := e4\<rparr>)) e4 = (True, e5) \<and>
            storeAccess env e5 = (None, e6) \<longrightarrow>
            (\<exists>st2 w2.
               syncLoop env token s courseById [b, a] st0 w0 = (Inr st2, w2) \<and>
               created st2 = created st0 + 1 \<and> skipped st2 = skipped st0 + 1 \<and>
               trace w2 = trace w0 @
                 [CreateTask (createBodyFor env s pid b w0) (Some newId),
                  UpdateTask newId (updateBodyFor env s a (w0\<lparr>outside := e4\<rparr>)) True]))"
proof (intro conjI allI impI)
  show "processAssignment env token s courseById a st w =
           (Inr (st\<lparr>skipped := skipped st + 1\<rparr>),
            w\<lparr>outside := e2,
              db := setAssignment (assignment_id a)
                      (\<lambda>r. r\<lparr>todoistTaskId := Some tid, lastSyncedAt := Some (clock env e1)\<rparr>) (db w),
              trace := trace w @ [UpdateTask tid (updateBodyFor env s a w) True]\<rparr>)"
    using cb pid unl hit upd sto row by (rule relink_step)
next
  fix b cb' newId e3 e4 e5 e6 and st0 :: lstate and w0 :: "'a world"
  assume h: "courseById (courseId b) = Some cb' \<and>
            truthy (todoistProjectId cb') = Some pid \<and>
            truthy (todoistTaskId b) = None \<and>
            makeTaskKey pid (name b) = makeTaskKey pid (name a) \<and>
            truthy (existingTasksByKey st0 (makeTaskKey pid (name b))) = None \<and>
            postNewTask env token (createBodyFor env s pid b w0) (outside w0) = (Some newId, e3) \<and>
            newId \<noteq> [] \<and>
            storeAccess env e3 = (None, e4) \<and>
            stored b (db w0) \<and> stored a (db w0) \<and>
            postTask env token newId (updateBodyFor env s a (w0\<lparr>outside := e4\<rparr>)) e4 = (True, e5) \<and>
            storeAccess env e5 = (None, e6)"
  let ?key = "makeTaskKey pid (name a)"
  let ?st1 = "st0\<lparr>existingTasksByKey := (existingTasksByKey st0)(?key \<mapsto> newId),
                    created := created st0 + 1\<rparr>"
  let ?w1 = "w0\<lparr>outside := e4,
              db := setAssignment (assignment_id b)
                      (\<lambda>r. r\<lparr>todoistTaskId := Some newId, lastSyncedAt := Some (clock env e3)\<rparr>) (db w0),
              trace := trace w0 @ [CreateTask (createBodyFor env s pid b w0) (Some newId)]\<rparr>"
  have keyeq: "makeTaskKey pid (name b) = ?key"
    using h by blast
  have "processAssignment env token s courseById b st0 w0 =
      (Inr (st0\<lparr>existingTasksByKey := (existingTasksByKey st0)(makeTaskKey pid (name b) \<mapsto> newId),
               created := created st0 + 1\<rparr>), ?w1)"
    by (rule create_step[where c = cb' and ?e1.0 = e3]) (use h in blast)+
  then have first: "processAssignment env token s courseById b st0 w0 = (Inr ?st1, ?w1)"
    by (simp only: keyeq)
  have body: "updateBodyFor env s a ?w1 = updateBodyFor env s a (w0\<lparr>outside := e4\<rparr>)"
    by (simp add: updateBodyFor_def priorityFor_def)
  have hit1: "truthy (existingTasksByKey ?st1 ?key) = Some newId"
    using h by (simp add: truthy_def)
  have upd1: "postTask env token newId (updateBodyFor env s a ?w1) (outside ?w1) = (True, e5)"
    using h by (simp add: body)
  have row1: "stored a (db ?w1)"
    using h by (simp add: stored_setAssignment)
  have second: "processAssignment env token s courseById a ?st1 ?w1 =
      (Inr (?st1\<lparr>skipped := skipped ?st1 + 1\<rparr>),
       ?w1\<lparr>outside := e6,
           db := setAssignment (assignment_id a)
                   (\<lambda>r. r\<lparr>todoistTaskId := Some newId, lastSyncedAt := Some (clock env e5)\<rparr>) (db ?w1),
           trace := trace ?w1 @ [UpdateTask newId (updateBodyFor env s a ?w1) True]\<rparr>)"
    using cb pid unl hit1 upd1 _ row1 by (rule relink_step) (use h in simp)
  show "\<exists>st2 w2.
               syncLoop env token s courseById [b, a] st0 w0 = (Inr st2, w2) \<and>
               created st2 = created st0 + 1 \<and> skipped st2 = skipped st0 + 1 \<and>
               trace w2 = trace w0 @
                 [CreateTask (createBodyFor env s pid b w0) (Some newId),
                  UpdateTask newId (updateBodyFor env s a (w0\<lparr>outside := e4\<rparr>)) True]"
  proof (intro exI conjI)
    show "syncLoop env token s courseById [b, a] st0 w0 =
        (Inr (?st1\<lparr>skipped := skipped ?st1 + 1\<rparr>),
         ?w1\<lparr>outside := e6,
             db := setAssignment (assignment_id a)
                     (\<lambda>r. r\<lparr>todoistTaskId := Some newId, lastSyncedAt := Some (clock env e5)\<rparr>) (db ?w1),
             trace := trace ?w1 @ [UpdateTask newId (updateBodyFor env s a ?w1) True]\<rparr>)"
      by (simp only: syncLoop.simps first second prod.case sum.case)
  qed (simp_all add: body)
qed

lemma key_essay: "makeTaskKey ''p1'' (name essay) = ''p1::Essay''"
  by code_simp

lemma course_essay:
  "courseByIdOf [math] (courseId essay) = Some math"
  "truthy (todoistProjectId math) = Some ''p1''"
  "truthy (todoistTaskId essay) = None"
  by (simp_all add: courseByIdOf_def math_def essay_def truthy_def)

text \<open>
  Todoist holds a task \<open>Essay\<close> (with a trailing space) in the project of the course;
  the unlinked assignment \<open>Essay\<close> is linked to it.
\<close>

theorem relink_without_duplicate_witness:
  "truthy (existingTasksByKey lstateHit (makeTaskKey ''p1'' (name essay))) = Some ''t7'' \<and>
   fst (processAssignment memEnv ''token'' defaults (courseByIdOf [math]) essay lstateHit
          (world0 [essay] memWithTask)) = Inr (lstateHit\<lparr>skipped := 1\<rparr>) \<and>
   trace (snd (processAssignment memEnv ''token'' defaults (courseByIdOf [math]) essay lstateHit
          (world0 [essay] memWithTask))) =
     [UpdateTask ''t7'' (updateBodyFor memEnv defaults essay (world0 [essay] memWithTask)) True]"
proof -
  let ?w = "world0 [essay] memWithTask"
  have hit: "truthy (existingTasksByKey lstateHit (makeTaskKey ''p1'' (name essay))) = Some ''t7''"
    by (simp add: key_essay lstateHit_def truthy_def)
  have upd: "postTask memEnv ''token'' ''t7'' (updateBodyFor memEnv defaults essay ?w) (outside ?w)
      = (True, memWithTask)"
    by (simp add: memEnv_def world0_def memWithTask_def mem0_def essayTask_def)
  have sto: "storeAccess memEnv memWithTask = (None, memWithTask\<lparr>mem_storeCalls := 1\<rparr>)"
    by (simp add: memEnv_def memWithTask_def mem0_def)
  have row: "stored essay (db ?w)"
    by (simp add: stored_def world0_def)
  from relink_without_duplicate[where courseById = "courseByIdOf [math]" and a = essay, OF course_essay hit upd sto row, THEN conjunct1]
  show ?thesis
    using hit by (simp add: lstateHit_def lstate0_def world0_def)
qed

text \<open>
  C5. A linked assignment whose update request fails (the store write succeeding): the
  iteration clears the stored \<open>todoistTaskId\<close>, stamps \<open>lastSyncedAt\<close>, adds one to
  \<open>skipped\<close> and sends no other request; the row as stored is the unlinked assignment
  \<open>a'\<close>. When a later run reaches \<open>a'\<close> with no non-empty task id for its key in the
  index, and the creation request and the store write succeed, the iteration creates a
  task with the assignment's name in the course's project, stores the new id as the link,
  puts it in the index and adds one to \<open>created\<close>.
\<close>

theorem recreate_after_remote_deletion:
  assumes cb: "courseById (courseId a) = Some c"
    and pid: "truthy (todoistProjectId c) = Some pid"
    and lnk: "truthy (todoistTaskId a) = Some t"
    and upd: "postTask env token t (updateBodyFor env s a w) (outside w) = (False, e1)"
    and sto: "storeAccess env e1 = (None, e2)"
    and row: "stored a (db w)"
  defines "a' \<equiv> a\<lparr>todoistTaskId := None, lastSyncedAt := Some (clock env e1)\<rparr>"
  shows "processAssignment env token s courseById a st w =
           (Inr (st\<lparr>skipped := skipped st + 1\<rparr>),
            w\<lparr>outside := e2,
              db := setAssignment (assignment_id a)
                      (\<lambda>r. r\<lparr>todoistTaskId := None, lastSyncedAt := Some (clock env e1)\<rparr>) (db w),
              trace := trace w @ [UpdateTask t (updateBodyFor env s a w) False]\<rparr>) \<and>
         (a \<in> set (assignments (db w)) \<longrightarrow>
            a' \<in> set (assignments (setAssignment (assignment_id a)
                      (\<lambda>r. r\<lparr>todoistTaskId := None, lastSyncedAt := Some (clock env e1)\<rparr>) (db w)))) \<and>
         (\<forall>(st' :: lstate) (w' :: 'a world) newId e3 e4.
            truthy (existingTasksByKey st' (makeTaskKey pid (name a))) = None \<and>
            postNewTask env token (createBodyFor env s pid a' w') (outside w') = (Some newId, e3) \<and>
            storeAccess env e3 = (None, e4) \<and>
            stored a (db w') \<longrightarrow>
            processAssignment env token s courseById a' st' w' =
              (Inr (st'\<lparr>existingTasksByKey :=
                         (existingTasksByKey st')(makeTaskKey pid (name a) \<mapsto> newId),
                       created := created st' + 1\<rparr>),
               w'\<lparr>outside := e4,
                  db := setAssignment (assignment_id a)
                          (\<lambda>r. r\<lparr>todoistTaskId := Some newId, lastSyncedAt := Some (clock env e3)\<rparr>)
                          (db w'),
                  trace := trace w' @ [CreateTask (createBodyFor env s pid a' w') (Some newId)]\<rparr>))"
proof (intro conjI allI impI)
  show "processAssignment env token s courseById a st w =
           (Inr (st\<lparr>skipped := skipped st + 1\<rparr>),
            w\<lparr>outside := e2,
              db := setAssignment (assignment_id a)
                      (\<lambda>r. r\<lparr>todoistTaskId := None, lastSyncedAt := Some (clock env e1)\<rparr>) (db w),
              trace := trace w @ [UpdateTask t (updateBodyFor env s a w) False]\<rparr>)"
    using linked_step[where courseById = courseById and a = a and st = st, OF cb pid lnk upd sto row] by simp
next
  assume "a \<in> set (assignments (db w))"
  then show "a' \<in> set (assignments (setAssignment (assignment_id a)
                      (\<lambda>r. r\<lparr>todoistTaskId := None, lastSyncedAt := Some (clock env e1)\<rparr>) (db w)))"
    by (force simp: setAssignment_def a'_def)
next
  fix st' :: lstate and w' :: "'a world" and newId e3 e4
  assume h: "truthy (existingTasksByKey st' (makeTaskKey pid (name a))) = None \<and>
            postNewTask env token (createBodyFor env s pid a' w') (outside w') = (Some newId, e3) \<and>
            storeAccess env e3 = (None, e4) \<and>
            stored a (db w')"
  have a': "courseId a' = courseId a" "name a' = name a" "assignment_id a' = assignment_id a"
    "truthy (todoistTaskId a') = None" "stored a' (db w') = stored a (db w')"
    by (simp_all add: a'_def truthy_def stored_def)
  have "processAssignment env token s courseById a' st' w' =
              (Inr (st'\<lparr>existingTasksByKey :=
                         (existingTasksByKey st')(makeTaskKey pid (name a') \<mapsto> newId),
                       created := created st' + 1\<rparr>),
               w'\<lparr>outside := e4,
                  db := setAssignment (assignment_id a')
                          (\<lambda>r. r\<lparr>todoistTaskId := Some newId, lastSyncedAt := Some (clock env e3)\<rparr>)
                          (db w'),
                  trace := trace w' @ [CreateTask (createBodyFor env s pid a' w') (Some newId)]\<rparr>)"
    by (rule create_step[where c = c and ?e1.0 = e3]) (use h cb pid a' in simp_all)
  then show "processAssignment env token s courseById a' st' w' =
              (Inr (st'\<lparr>existingTasksByKey :=
                         (existingTasksByKey st')(makeTaskKey pid (name a) \<mapsto> newId),
                       created := created st' + 1\<rparr>),
               w'\<lparr>outside := e4,
                  db := setAssignment (assignment_id a)
                          (\<lambda>r. r\<lparr>todoistTaskId := Some newId, lastSyncedAt := Some (clock env e3)\<rparr>)
                          (db w'),
                  trace := trace w' @ [CreateTask (createBodyFor env s pid a' w') (Some newId)]\<rparr>)"
    using a'(2,3) by simp
qed

lemma in_setAssignment:
  "r \<in> set (assignments (setAssignment aid data s)) \<longleftrightarrow>
   (\<exists>x \<in> set (assignments s). r = (if assignment_id x = aid then data x else x))"
proof -
  have "assignments (setAssignment aid data s) =
      map (\<lambda>x. if assignment_id x = aid then data x else x) (assignments s)"
    by (simp add: setAssignment_def)
  then show ?thesis
    by (simp only: set_map image_iff)
qed

text \<open>
  C10, amended. For an assignment that is linked when the loop reaches it (the store
  write succeeding), whether the update request succeeds or fails every row of the
  assignment has \<open>lastSyncedAt\<close> set to the time after the request, and when the request
  fails the row's \<open>todoistTaskId\<close> is cleared and \<open>skipped\<close> grows by one: \<open>lastSyncedAt\<close>
  is the time of the last attempt, and a row with a \<open>lastSyncedAt\<close> need not be linked.
\<close>

theorem linked_attempt_stamps_lastSyncedAt:
  assumes cb: "courseById (courseId a) = Some c"
    and pid: "truthy (todoistProjectId c) = Some pid"
    and lnk: "truthy (todoistTaskId a) = Some t"
    and upd: "postTask env token t (updateBodyFor env s a w) (outside w) = (ok, e1)"
    and sto: "storeAccess env e1 = (None, e2)"
    and row: "stored a (db w)"
  shows "\<exists>st' w'.
           processAssignment env token s courseById a st w = (Inr st', w') \<and>
           created st' = created st \<and>
           skipped st' = (if ok then skipped st else skipped st + 1) \<and>
           (\<forall>r \<in> set (assignments (db w')).
              assignment_id r = assignment_id a \<longrightarrow>
              lastSyncedAt r = Some (clock env e1) \<and> (\<not> ok \<longrightarrow> todoistTaskId r = None)) \<and>
           (\<exists>r \<in> set (assignments (db w')). assignment_id r = assignment_id a)"
proof -
  let ?data = "\<lambda>r. if ok then r\<lparr>lastSyncedAt := Some (clock env e1)\<rparr>
                   else r\<lparr>todoistTaskId := None, lastSyncedAt := Some (clock env e1)\<rparr>"
  let ?db = "setAssignment (assignment_id a) ?data (db w)"
  let ?st = "if ok then st else st\<lparr>skipped := skipped st + 1\<rparr>"
  let ?w = "w\<lparr>outside := e2, db := ?db,
             trace := trace w @ [UpdateTask t (updateBodyFor env s a w) ok]\<rparr>"
  have step: "processAssignment env token s courseById a st w = (Inr ?st, ?w)"
    by (rule linked_step[where courseById = courseById and a = a and st = st,
          OF cb pid lnk upd sto row])
  have id: "assignment_id (?data x) = assignment_id x" for x
    by simp
  have stamped: "lastSyncedAt r = Some (clock env e1) \<and> (\<not> ok \<longrightarrow> todoistTaskId r = None)"
    if "r \<in> set (assignments ?db)" and "assignment_id r = assignment_id a" for r
  proof -
    from that(1) obtain x where x: "x \<in> set (assignments (db w))"
      and r: "r = (if assignment_id x = assignment_id a then ?data x else x)"
      unfolding in_setAssignment by blast
    have "assignment_id x = assignment_id a"
      using that(2) r id[of x] by (cases "assignment_id x = assignment_id a") simp_all
    then have "r = ?data x"
      using r by simp
    then show ?thesis
      by simp
  qed
  have present: "\<exists>r \<in> set (assignments ?db). assignment_id r = assignment_id a"
  proof -
    from row obtain x where x: "x \<in> set (assignments (db w))" "assignment_id x = assignment_id a"
      by (auto simp: stored_def)
    then have "?data x \<in> set (assignments ?db)"
      unfolding in_setAssignment by (intro bexI[of _ x]) simp_all
    then show ?thesis
      using id[of x] x(2) by (intro bexI[of _ "?data x"]) simp_all
  qed
  have c: "created ?st = created st" "skipped ?st = (if ok then skipped st else skipped st + 1)"
    by simp_all
  have dbw: "db ?w = ?db"
    by simp
  show ?thesis
  proof (intro exI conjI)
    show "processAssignment env token s courseById a st w = (Inr ?st, ?w)"
      by (rule step)
    show "created ?st = created st"
      by (rule c)
    show "skipped ?st = (if ok then skipped st else skipped st + 1)"
      by (rule c)
    show "\<forall>r \<in> set (assignments (db ?w)).
              assignment_id r = assignment_id a \<longrightarrow>
              lastSyncedAt r = Some (clock env e1) \<and> (\<not> ok \<longrightarrow> todoistTaskId r = None)"
      unfolding dbw using stamped by blast
    show "\<exists>r \<in> set (assignments (db ?w)). assignment_id r = assignment_id a"
      unfolding dbw by (rule present)
  qed
qed

lemma course_linkedEssay:
  "courseByIdOf [math] (courseId linkedEssay) = Some math"
  "truthy (todoistProjectId math) = Some ''p1''"
  "truthy (todoistTaskId linkedEssay) = Some ''gone''"
  by (simp_all add: courseByIdOf_def math_def essay_def linkedEssay_def truthy_def)

lemma gone_fails:
  "postTask memEnv ''token'' ''gone'' body (outside (world0 as mem0)) = (False, mem0)"
  by (simp add: memEnv_def world0_def mem0_def)

lemma store_mem0: "storeAccess memEnv mem0 = (None, mem0\<lparr>mem_storeCalls := 1\<rparr>)"
  by (simp add: memEnv_def mem0_def)

lemma showNat_1: "showNat (Suc 0) = ''1''"
  by code_simp

lemma clock_mem0: "clock memEnv mem0 = noon 0"
  by (simp add: memEnv_def mem0_def)

text \<open>
  The assignment is linked to a task \<open>gone\<close> that Todoist does not have: the first
  iteration unlinks it, the next one creates the task \<open>t1\<close>.
\<close>

theorem recreate_after_remote_deletion_witness:
  "postTask memEnv ''token'' ''gone'' (updateBodyFor memEnv defaults linkedEssay (world0 [linkedEssay] mem0))
     (outside (world0 [linkedEssay] mem0)) = (False, mem0) \<and>
   fst (processAssignment memEnv ''token'' defaults (courseByIdOf [math]) linkedEssay lstate0
          (world0 [linkedEssay] mem0)) = Inr (lstate0\<lparr>skipped := 1\<rparr>) \<and>
   unlinkedAgain \<in> set (assignments (db (snd (processAssignment memEnv ''token'' defaults
          (courseByIdOf [math]) linkedEssay lstate0 (world0 [linkedEssay] mem0))))) \<and>
   fst (processAssignment memEnv ''token'' defaults (courseByIdOf [math]) unlinkedAgain lstate0
          (world0 [unlinkedAgain] mem0)) =
     Inr (lstate0\<lparr>existingTasksByKey := [''p1::Essay'' \<mapsto> ''t1''], created := 1\<rparr>)"
proof -
  let ?w = "world0 [linkedEssay] mem0"
  let ?w' = "world0 [unlinkedAgain] mem0"
  let ?e3 = "mem0\<lparr>mem_tasks := [\<lparr>task_id = ''t1'', content = ''Essay'', project_id = ''p1''\<rparr>],
                  mem_next := 2\<rparr>"
  have a': "linkedEssay\<lparr>todoistTaskId := None, lastSyncedAt := Some (clock memEnv mem0)\<rparr> = unlinkedAgain"
    by (simp add: unlinkedAgain_def clock_mem0)
  have row: "stored linkedEssay (db ?w)" "linkedEssay \<in> set (assignments (db ?w))"
    by (simp_all add: stored_def world0_def)
  note main = recreate_after_remote_deletion[where courseById = "courseByIdOf [math]" and a = linkedEssay
      and st = lstate0 and s = defaults, OF course_linkedEssay gone_fails store_mem0 row(1)]
  have one: "fst (processAssignment memEnv ''token'' defaults (courseByIdOf [math]) linkedEssay lstate0 ?w)
      = Inr (lstate0\<lparr>skipped := 1\<rparr>)"
    using main[THEN conjunct1] by (simp add: lstate0_def)
  have two: "unlinkedAgain \<in> set (assignments (db (snd (processAssignment memEnv ''token'' defaults
          (courseByIdOf [math]) linkedEssay lstate0 ?w))))"
    using main[THEN conjunct2, THEN conjunct1] row(2) main[THEN conjunct1] by (simp add: a')
  have key: "makeTaskKey ''p1'' (name linkedEssay) = ''p1::Essay''"
    using key_essay by (simp add: linkedEssay_def)
  have miss: "truthy (existingTasksByKey lstate0 (makeTaskKey ''p1'' (name linkedEssay))) = None"
    by (simp add: lstate0_def truthy_def)
  have new: "postNewTask memEnv ''token'' (createBodyFor memEnv defaults ''p1'' unlinkedAgain ?w')
      (outside ?w') = (Some ''t1'', ?e3)"
    by (simp add: memEnv_def world0_def mem0_def createBodyFor_def unlinkedAgain_def linkedEssay_def
        essay_def showNat_1 Let_def)
  have sto: "storeAccess memEnv ?e3 = (None, ?e3\<lparr>mem_storeCalls := 1\<rparr>)"
    by (simp add: memEnv_def mem0_def)
  have row': "stored linkedEssay (db ?w')"
    by (simp add: stored_def world0_def unlinkedAgain_def)
  have three: "fst (processAssignment memEnv ''token'' defaults (courseByIdOf [math]) unlinkedAgain lstate0 ?w')
      = Inr (lstate0\<lparr>existingTasksByKey := [''p1::Essay'' \<mapsto> ''t1''], created := 1\<rparr>)"
    using main[THEN conjunct2, THEN conjunct2, rule_format, of lstate0 ?w' "''t1''" ?e3
        "?e3\<lparr>mem_storeCalls := 1\<rparr>"] miss new sto row'
    by (simp add: a' key lstate0_def)
  show ?thesis
    using gone_fails one two three by blast
qed

text \<open>
  The update of the task \<open>gone\<close> fails at noon of day 0: the row is stamped with that
  time and has no link.
\<close>

theorem linked_attempt_stamps_lastSyncedAt_witness:
  "postTask memEnv ''token'' ''gone'' (updateBodyFor memEnv defaults linkedEssay (world0 [linkedEssay] mem0))
     (outside (world0 [linkedEssay] mem0)) = (False, mem0) \<and>
   (\<exists>st' w'. processAssignment memEnv ''token'' defaults (courseByIdOf [math]) linkedEssay lstate0
          (world0 [linkedEssay] mem0) = (Inr st', w') \<and>
      skipped st' = 1 \<and>
      (\<exists>r \<in> set (assignments (db w')). lastSyncedAt r = Some (noon 0) \<and> todoistTaskId r = None))"
proof -
  have row: "stored linkedEssay (db (world0 [linkedEssay] mem0))"
    by (simp add: stored_def world0_def)
  from linked_attempt_stamps_lastSyncedAt[where courseById = "courseByIdOf [math]" and a = linkedEssay
      and st = lstate0 and s = defaults, OF course_linkedEssay gone_fails store_mem0 row]
  obtain st' w' where
    step: "processAssignment memEnv ''token'' defaults (courseByIdOf [math]) linkedEssay lstate0
          (world0 [linkedEssay] mem0) = (Inr st', w')"
    and sk: "skipped st' = (if False then skipped lstate0 else skipped lstate0 + 1)"
    and all: "\<forall>r \<in> set (assignments (db w')).
              assignment_id r = assignment_id linkedEssay \<longrightarrow>
              lastSyncedAt r = Some (clock memEnv mem0) \<and> (\<not> False \<longrightarrow> todoistTaskId r = None)"
    and ex: "\<exists>r \<in> set (assignments (db w')). assignment_id r = assignment_id linkedEssay"
    by blast
  from ex all have "\<exists>r \<in> set (assignments (db w')). lastSyncedAt r = Some (noon 0) \<and> todoistTaskId r = None"
    by (auto simp: clock_mem0)
  moreover have "skipped st' = 1"
    using sk by (simp add: lstate0_def)
  ultimately show ?thesis
    using step gone_fails by blast
qed

lemma key_essayTask: "makeTaskKey ''p1'' (content essayTask) = ''p1::Essay''"
  by code_simp

lemma listing_memLocked:
  "fst (loadExistingTasks memEnv ''token'' [''p1''] Map.empty (world0 [essay] memLocked))
     (makeTaskKey ''p1'' (name essay)) = Some ''t7''"
  by (simp add: listTasks_def memEnv_def world0_def memLocked_def mem0_def key_essay
      key_essayTask) (simp add: essayTask_def)

text \<open>
  C3, on the code. The listing of the project puts the key of the unlinked assignment
  \<open>Essay\<close> in the index with the task \<open>t7\<close>, and the update of \<open>t7\<close> fails. The iteration
  sends that one request and ends: no creation request, \<open>created\<close> and \<open>skipped\<close>
  unchanged, the assignment still unlinked. The comment in the \<open>catch\<close> block says that
  the code falls back to creating a new task; the \<open>continue\<close> after the \<open>try\<close> statement
  is reached on failure as on success.
\<close>

theorem failed_relink_creates_nothing:
  "fst (loadExistingTasks memEnv ''token'' [''p1''] Map.empty (world0 [essay] memLocked))
     (makeTaskKey ''p1'' (name essay)) = Some ''t7'' \<and>
   existingTasksByKey lstateHit (makeTaskKey ''p1'' (name essay)) = Some ''t7'' \<and>
   processAssignment memEnv ''token'' defaults (courseByIdOf [math]) essay lstateHit
       (world0 [essay] memLocked) =
     (Inr lstateHit,
      (world0 [essay] memLocked)
        \<lparr>trace := [UpdateTask ''t7''
                     (updateBodyFor memEnv defaults essay (world0 [essay] memLocked)) False]\<rparr>)"
proof -
  let ?w = "world0 [essay] memLocked"
  have hit: "truthy (existingTasksByKey lstateHit (makeTaskKey ''p1'' (name essay))) = Some ''t7''"
    by (simp add: key_essay lstateHit_def truthy_def)
  have upd: "postTask memEnv ''token'' ''t7'' (updateBodyFor memEnv defaults essay ?w) (outside ?w)
      = (False, memLocked)"
    by (simp add: memEnv_def world0_def memLocked_def mem0_def essayTask_def)
  have "processAssignment memEnv ''token'' defaults (courseByIdOf [math]) essay lstateHit ?w =
      (Inr lstateHit,
       ?w\<lparr>outside := memLocked,
          trace := trace ?w @ [UpdateTask ''t7'' (updateBodyFor memEnv defaults essay ?w) False]\<rparr>)"
    by (rule relink_failed_step[where courseById = "courseByIdOf [math]" and a = essay,
          OF course_essay hit upd])
  then show ?thesis
    using listing_memLocked by (simp add: key_essay lstateHit_def world0_def)
qed

text \<open>
  C10, as stated, fails for an unlinked assignment: its creation request fails at noon of
  day 0, the attempt is counted as skipped, and the row keeps its \<open>lastSyncedAt\<close>, here
  none at all.
\<close>

theorem failed_creation_leaves_lastSyncedAt:
  "clock memEnv memCreateDown = noon 0 \<and>
   lastSyncedAt essay = None \<and>
   processAssignment memEnv ''token'' defaults (courseByIdOf [math]) essay lstate0
       (world0 [essay] memCreateDown) =
     (Inr (lstate0\<lparr>skipped := 1\<rparr>),
      (world0 [essay] memCreateDown)
        \<lparr>trace := [CreateTask
                     (createBodyFor memEnv defaults ''p1'' essay (world0 [essay] memCreateDown))
                     None]\<rparr>)"
proof -
  let ?w = "world0 [essay] memCreateDown"
  have miss: "truthy (existingTasksByKey lstate0 (makeTaskKey ''p1'' (name essay))) = None"
    by (simp add: lstate0_def truthy_def)
  have new: "postNewTask memEnv ''token'' (createBodyFor memEnv defaults ''p1'' essay ?w) (outside ?w)
      = (None, memCreateDown)"
    by (simp add: memEnv_def world0_def memCreateDown_def mem0_def)
  have "processAssignment memEnv ''token'' defaults (courseByIdOf [math]) essay lstate0 ?w =
      (Inr (lstate0\<lparr>skipped := skipped lstate0 + 1\<rparr>),
       ?w\<lparr>outside := memCreateDown,
          trace := trace ?w @ [CreateTask (createBodyFor memEnv defaults ''p1'' essay ?w) None]\<rparr>)"
    by (rule create_failed_step[where courseById = "courseByIdOf [math]" and a = essay,
          OF course_essay miss new])
  then show ?thesis
    by (simp add: lstate0_def world0_def memEnv_def memCreateDown_def mem0_def essay_def)
qed

end
